theory Spec2Isabelle
  imports Complex_Main "HOL-Library.Word"
begin

section \<open>Sampling of single-view 2D/3D registration initialisations (xreg)\<close>

text \<open>
  A shallow embedding of \<^verbatim>\<open>xreg_sample_single_view_regi_2d_3d_main.cpp\<close>: the pose
  sampler class, the reader of the ground-truth data, and \<^verbatim>\<open>main\<close> with its anchoring
  algebra, its per-sample loop and its three summary tables.

  Side effects are recorded as a chronological list of events (the trace); an exception
  that \<^verbatim>\<open>main\<close> does not catch ends the run with the trace accumulated so far.
\<close>

subsection \<open>Points, matrices and frame transforms\<close>

text \<open>
  Modelled from the spec: \<^verbatim>\<open>CoordScalar\<close>, \<^verbatim>\<open>Pt3\<close> and \<^verbatim>\<open>FrameTransform\<close> are declared
  in headers that are not among the sources. The spec's data model speaks of real
  numbers and of a 4x4 homogeneous matrix with a 3x3 block, a 3x1 translation and the
  bottom row [0,0,0,1]; scalars are therefore exact reals (rounding is not modelled) and
  a transform is its 3x3 block and its translation column.
\<close>

type_synonym CoordScalar = real

datatype Pt3 = Pt3 (pt_x: CoordScalar) (pt_y: CoordScalar) (pt_z: CoordScalar)

datatype Mat3x3 = Mat3x3 (row0: Pt3) (row1: Pt3) (row2: Pt3)

datatype FrameTransform = FrameTransform (lin: Mat3x3) (translation: Pt3)

definition pt_zero :: Pt3 where
  "pt_zero = Pt3 0 0 0"

fun pt_add :: "Pt3 \<Rightarrow> Pt3 \<Rightarrow> Pt3" where
  "pt_add (Pt3 a b c) (Pt3 x y z) = Pt3 (a + x) (b + y) (c + z)"

fun pt_neg :: "Pt3 \<Rightarrow> Pt3" where
  "pt_neg (Pt3 a b c) = Pt3 (- a) (- b) (- c)"

fun pt_sub :: "Pt3 \<Rightarrow> Pt3 \<Rightarrow> Pt3" where
  "pt_sub (Pt3 a b c) (Pt3 x y z) = Pt3 (a - x) (b - y) (c - z)"

fun pt_scale :: "CoordScalar \<Rightarrow> Pt3 \<Rightarrow> Pt3" where
  "pt_scale k (Pt3 a b c) = Pt3 (k * a) (k * b) (k * c)"

fun dot :: "Pt3 \<Rightarrow> Pt3 \<Rightarrow> CoordScalar" where
  "dot (Pt3 a b c) (Pt3 x y z) = a * x + b * y + c * z"

definition norm3 :: "Pt3 \<Rightarrow> CoordScalar" where
  "norm3 p = sqrt (dot p p)"

definition pt_nth :: "Pt3 \<Rightarrow> nat \<Rightarrow> CoordScalar" where
  "pt_nth p i = (if i = 0 then pt_x p else if i = 1 then pt_y p else pt_z p)"

definition mat_row :: "Mat3x3 \<Rightarrow> nat \<Rightarrow> Pt3" where
  "mat_row M r = (if r = 0 then row0 M else if r = 1 then row1 M else row2 M)"

fun col0 :: "Mat3x3 \<Rightarrow> Pt3" where
  "col0 (Mat3x3 (Pt3 a b c) (Pt3 d e f) (Pt3 g h i)) = Pt3 a d g"

fun col1 :: "Mat3x3 \<Rightarrow> Pt3" where
  "col1 (Mat3x3 (Pt3 a b c) (Pt3 d e f) (Pt3 g h i)) = Pt3 b e h"

fun col2 :: "Mat3x3 \<Rightarrow> Pt3" where
  "col2 (Mat3x3 (Pt3 a b c) (Pt3 d e f) (Pt3 g h i)) = Pt3 c f i"

definition mat_id :: Mat3x3 where
  "mat_id = Mat3x3 (Pt3 1 0 0) (Pt3 0 1 0) (Pt3 0 0 1)"

fun mat_add :: "Mat3x3 \<Rightarrow> Mat3x3 \<Rightarrow> Mat3x3" where
  "mat_add (Mat3x3 a b c) (Mat3x3 x y z) = Mat3x3 (pt_add a x) (pt_add b y) (pt_add c z)"

fun mat_scale :: "CoordScalar \<Rightarrow> Mat3x3 \<Rightarrow> Mat3x3" where
  "mat_scale k (Mat3x3 r0 r1 r2) = Mat3x3 (pt_scale k r0) (pt_scale k r1) (pt_scale k r2)"

fun mat_vec :: "Mat3x3 \<Rightarrow> Pt3 \<Rightarrow> Pt3" where
  "mat_vec (Mat3x3 r0 r1 r2) p = Pt3 (dot r0 p) (dot r1 p) (dot r2 p)"

definition mat_mul :: "Mat3x3 \<Rightarrow> Mat3x3 \<Rightarrow> Mat3x3" where
  "mat_mul A B =
     Mat3x3 (Pt3 (dot (row0 A) (col0 B)) (dot (row0 A) (col1 B)) (dot (row0 A) (col2 B)))
            (Pt3 (dot (row1 A) (col0 B)) (dot (row1 A) (col1 B)) (dot (row1 A) (col2 B)))
            (Pt3 (dot (row2 A) (col0 B)) (dot (row2 A) (col1 B)) (dot (row2 A) (col2 B)))"

fun mat_trace :: "Mat3x3 \<Rightarrow> CoordScalar" where
  "mat_trace (Mat3x3 (Pt3 a b c) (Pt3 d e f) (Pt3 g h i)) = a + e + i"

fun determinant :: "Mat3x3 \<Rightarrow> CoordScalar" where
  "determinant (Mat3x3 (Pt3 a b c) (Pt3 d e f) (Pt3 g h i)) =
     a * (e * i - f * h) - b * (d * i - f * g) + c * (d * h - e * g)"

fun adjugate :: "Mat3x3 \<Rightarrow> Mat3x3" where
  "adjugate (Mat3x3 (Pt3 a b c) (Pt3 d e f) (Pt3 g h i)) =
     Mat3x3 (Pt3 (e * i - f * h) (c * h - b * i) (b * f - c * e))
            (Pt3 (f * g - d * i) (a * i - c * g) (c * d - a * f))
            (Pt3 (d * h - e * g) (b * g - a * h) (a * e - b * d))"

text \<open>The inverse of the 3x3 block: cofactors times the reciprocal of the determinant.\<close>

definition mat_inverse :: "Mat3x3 \<Rightarrow> Mat3x3" where
  "mat_inverse M = mat_scale (1 / determinant M) (adjugate M)"

text \<open>\<^verbatim>\<open>FrameTransform::Identity()\<close>.\<close>

definition Identity :: FrameTransform where
  "Identity = FrameTransform mat_id pt_zero"

text \<open>\<^verbatim>\<open>A * B\<close> on two transforms: the product of the homogeneous matrices.\<close>

definition xf_mul :: "FrameTransform \<Rightarrow> FrameTransform \<Rightarrow> FrameTransform" where
  "xf_mul A B = FrameTransform (mat_mul (lin A) (lin B))
                               (pt_add (mat_vec (lin A) (translation B)) (translation A))"

text \<open>\<^verbatim>\<open>A * p\<close> on a transform and a point.\<close>

definition xf_pt :: "FrameTransform \<Rightarrow> Pt3 \<Rightarrow> Pt3" where
  "xf_pt A p = pt_add (mat_vec (lin A) p) (translation A)"

text \<open>\<^verbatim>\<open>A.inverse()\<close>.\<close>

definition xf_inverse :: "FrameTransform \<Rightarrow> FrameTransform" where
  "xf_inverse A = FrameTransform (mat_inverse (lin A))
                                 (pt_neg (mat_vec (mat_inverse (lin A)) (translation A)))"

text \<open>\<^verbatim>\<open>A.matrix().block(0,3,3,1) = v\<close>: overwrite the translation column.\<close>

definition set_translation :: "FrameTransform \<Rightarrow> Pt3 \<Rightarrow> FrameTransform" where
  "set_translation A v = FrameTransform (lin A) v"

text \<open>\<^verbatim>\<open>A.matrix()(r,c)\<close> for \<open>r, c < 4\<close>.\<close>

definition matrix :: "FrameTransform \<Rightarrow> nat \<Rightarrow> nat \<Rightarrow> CoordScalar" where
  "matrix A r c =
     (if r < 3 then (if c < 3 then pt_nth (mat_row (lin A) r) c else pt_nth (translation A) r)
      else (if c < 3 then 0 else 1))"

definition invertible :: "FrameTransform \<Rightarrow> bool" where
  "invertible A \<longleftrightarrow> determinant (lin A) \<noteq> 0"

subsection \<open>Constants and helpers of the library\<close>

text \<open>
  Modelled from the spec: \<^verbatim>\<open>kDEG2RAD\<close> and \<^verbatim>\<open>kRAD2DEG\<close> are defined in a header
  that is not among the sources; they are the conversion factors between degrees and
  radians.
\<close>

definition kDEG2RAD :: CoordScalar where
  "kDEG2RAD = pi / 180"

definition kRAD2DEG :: CoordScalar where
  "kRAD2DEG = 180 / pi"

text \<open>
  Modelled from the spec: \<^verbatim>\<open>SE3OptVarsLieAlg::operator()\<close> is not among the sources.
  The spec (4.1) describes the closed-form exponential map of se(3) on a tangent vector
  \<open>(rx, ry, rz, tx, ty, tz)\<close>: the rotation generators give the rotation by the
  angle-axis formula, the translation is coupled through the left-Jacobian-like matrix,
  and below the angle threshold 1e-6 the coefficients are their Taylor expansions.
\<close>

fun skew :: "Pt3 \<Rightarrow> Mat3x3" where
  "skew (Pt3 x y z) = Mat3x3 (Pt3 0 (- z) y) (Pt3 z 0 (- x)) (Pt3 (- y) x 0)"

definition se3 :: "CoordScalar list \<Rightarrow> FrameTransform" where
  "se3 x =
     (let w = Pt3 (x ! 0) (x ! 1) (x ! 2);
          v = Pt3 (x ! 3) (x ! 4) (x ! 5);
          theta = norm3 w;
          small = (theta < 1 / 1000000);
          A = (if small then 1 - theta ^ 2 / 6 else sin theta / theta);
          B = (if small then 1 / 2 - theta ^ 2 / 24 else (1 - cos theta) / theta ^ 2);
          C = (if small then 1 / 6 - theta ^ 2 / 120 else (theta - sin theta) / theta ^ 3);
          W = skew w;
          W2 = mat_mul W W;
          R = mat_add mat_id (mat_add (mat_scale A W) (mat_scale B W2));
          V = mat_add mat_id (mat_add (mat_scale B W) (mat_scale C W2))
      in FrameTransform R (mat_vec V v))"

text \<open>
  Modelled from the spec: \<^verbatim>\<open>ComputeRotAngTransMag\<close> is not among the sources. The spec
  (4.4) gives the total rotation angle in radians as the angle-axis magnitude of the
  rotation block and the total translation as the Euclidean norm of the translation.
\<close>

definition ComputeRotAngTransMag :: "FrameTransform \<Rightarrow> CoordScalar \<times> CoordScalar" where
  "ComputeRotAngTransMag xform =
     (arccos ((mat_trace (lin xform) - 1) / 2), norm3 (translation xform))"

text \<open>
  Modelled from the spec: \<^verbatim>\<open>RigidXformToEulerXYZAndTrans\<close> is not among the sources. The
  spec (4.4) leaves the rotation-order convention of the Euler decomposition open, so
  the extraction of the three angles (in radians) from the rotation block is a parameter
  \<open>euler\<close>; the three translations are the raw components of the translation column.
\<close>

definition RigidXformToEulerXYZAndTrans ::
  "(Mat3x3 \<Rightarrow> CoordScalar \<times> CoordScalar \<times> CoordScalar) \<Rightarrow> FrameTransform \<Rightarrow>
     CoordScalar \<times> CoordScalar \<times> CoordScalar \<times> CoordScalar \<times> CoordScalar \<times> CoordScalar" where
  "RigidXformToEulerXYZAndTrans euler xform =
     (case euler (lin xform) of (rot_x, rot_y, rot_z) \<Rightarrow>
        (rot_x, rot_y, rot_z,
         pt_x (translation xform), pt_y (translation xform), pt_z (translation xform)))"

text \<open>
  \<^verbatim>\<open>fmt::format("{:03d}", n)\<close>: the decimal digits of \<open>n\<close>, padded on the left with
  zeros to three characters.
\<close>

definition digit_char :: "nat \<Rightarrow> char" where
  "digit_char d = ''0123456789'' ! d"

fun to_decimal :: "nat \<Rightarrow> string" where
  "to_decimal n =
     (if n < 10 then [digit_char n] else to_decimal (n div 10) @ [digit_char (n mod 10)])"

declare to_decimal.simps [simp del]

definition fmt_03d :: "nat \<Rightarrow> string" where
  "fmt_03d n = (let s = to_decimal n in replicate (3 - length s) (CHR ''0'') @ s)"

text \<open>
  Modelled from the spec: the class \<^verbatim>\<open>Path\<close> is not among the sources; \<^verbatim>\<open>dir + name\<close>
  names the entry \<open>name\<close> inside the directory \<open>dir\<close>.
\<close>

definition Path_plus :: "string \<Rightarrow> string \<Rightarrow> string" where
  "Path_plus dir name = dir @ ''/'' @ name"

subsection \<open>The random engine and the pose sampler\<close>

text \<open>
  The engine \<^verbatim>\<open>std::mt19937\<close> is determined by its seed and by how many variates it has
  produced; the variate a seeded engine yields at a position is given by a function
  \<open>nv\<close> (seed, position), which the model takes as a parameter.
\<close>

record mt19937 =
  seed :: "32 word"
  consumed :: nat

definition default_engine :: mt19937 where
  "default_engine = \<lparr> seed = 5489, consumed = 0 \<rparr>"

text \<open>
  Modelled from the spec: the class \<^verbatim>\<open>MultivarNormalDistZeroCov\<close> is not among the
  sources. It holds a mean vector and a vector of standard deviations (no covariance
  between dimensions); \<^verbatim>\<open>draw_samples\<close> returns one column per requested sample, drawn
  sequentially from the engine, each dimension independently: mean plus standard
  deviation times a standard normal variate.
\<close>

record MultivarNormalDistZeroCov =
  mean :: "CoordScalar list"
  std_devs :: "CoordScalar list"

fun draw_dims ::
  "(32 word \<Rightarrow> nat \<Rightarrow> CoordScalar) \<Rightarrow> (CoordScalar \<times> CoordScalar) list \<Rightarrow> mt19937 \<Rightarrow>
     CoordScalar list \<times> mt19937" where
  "draw_dims nv [] rng = ([], rng)"
| "draw_dims nv ((m, s) # ms) rng =
     (case draw_dims nv ms (rng\<lparr>consumed := Suc (consumed rng)\<rparr>) of
        (xs, rng') \<Rightarrow> ((m + s * nv (seed rng) (consumed rng)) # xs, rng'))"

fun draw_samples ::
  "(32 word \<Rightarrow> nat \<Rightarrow> CoordScalar) \<Rightarrow> MultivarNormalDistZeroCov \<Rightarrow> nat \<Rightarrow> mt19937 \<Rightarrow>
     CoordScalar list list \<times> mt19937" where
  "draw_samples nv mvn 0 rng = ([], rng)"
| "draw_samples nv mvn (Suc n) rng =
     (case draw_dims nv (zip (mean mvn) (std_devs mvn)) rng of
        (col, rng') \<Rightarrow>
          (case draw_samples nv mvn n rng' of (cols, rng'') \<Rightarrow> (col # cols, rng'')))"

text \<open>
  The class \<^verbatim>\<open>PoseParamSamplerIndepNormalDims\<close>: its constructor and its method. The
  field \<open>dist_ptr\<close> is the member \<^verbatim>\<open>dist_\<close>.
\<close>

record PoseParamSamplerIndepNormalDims =
  dist_ptr :: MultivarNormalDistZeroCov

definition PoseParamSamplerIndepNormalDims_ctor ::
  "CoordScalar \<Rightarrow> CoordScalar \<Rightarrow> CoordScalar \<Rightarrow> CoordScalar \<Rightarrow> CoordScalar \<Rightarrow> CoordScalar \<Rightarrow>
     PoseParamSamplerIndepNormalDims" where
  "PoseParamSamplerIndepNormalDims_ctor rot_x_deg_std_dev rot_y_deg_std_dev rot_z_deg_std_dev
       trans_x_mm_std_dev trans_y_mm_std_dev trans_z_mm_std_dev =
     \<lparr> dist_ptr = \<lparr> mean = replicate 6 0,
                    std_devs = [rot_x_deg_std_dev, rot_y_deg_std_dev, rot_z_deg_std_dev,
                                trans_x_mm_std_dev, trans_y_mm_std_dev, trans_z_mm_std_dev] \<rparr> \<rparr>"

definition SamplePoseParams ::
  "(32 word \<Rightarrow> nat \<Rightarrow> CoordScalar) \<Rightarrow> PoseParamSamplerIndepNormalDims \<Rightarrow> nat \<Rightarrow> mt19937 \<Rightarrow>
     CoordScalar list list \<times> mt19937" where
  "SamplePoseParams nv sampler num_samples rng_eng = draw_samples nv (dist_ptr sampler) num_samples rng_eng"

text \<open>The sampler that \<^verbatim>\<open>main\<close> creates.\<close>

definition param_sampler :: PoseParamSamplerIndepNormalDims where
  "param_sampler =
     PoseParamSamplerIndepNormalDims_ctor (1 * kDEG2RAD) (1 * kDEG2RAD) (1 * kDEG2RAD) 1 1 5"

subsection \<open>The data read from the HDF5 file\<close>

text \<open>
  Modelled from the spec: the camera model class and its \<^verbatim>\<open>setup\<close> are not among the
  sources. Per the spec's data model the camera holds the extrinsic transform and its
  inverse; \<^verbatim>\<open>main\<close> reads the two fields \<^verbatim>\<open>extrins\<close> and \<^verbatim>\<open>extrins_inv\<close> only.
\<close>

record CameraModel =
  extrins :: FrameTransform
  extrins_inv :: FrameTransform

definition cam_setup :: "FrameTransform \<Rightarrow> CameraModel" where
  "cam_setup extrinsic = \<lparr> extrins = extrinsic, extrins_inv = xf_inverse extrinsic \<rparr>"

text \<open>
  The HDF5 file, as far as \<^verbatim>\<open>main\<close> depends on it: the extrinsic matrix of the group
  \<^verbatim>\<open>proj-params\<close> (absent when the group is), and per specimen the ground-truth poses of
  its projections, keyed by the three-digit index. Voxel and pixel data are not
  modelled; of the pelvis volume only its physical centre after masking and cropping is
  kept, which is what \<^verbatim>\<open>ITKVol3DCenterAsPhysPt\<close> returns to \<^verbatim>\<open>main\<close>.
\<close>

record H5Specimen =
  pelvis_center :: Pt3
  projections :: "string \<rightharpoonup> FrameTransform"

record H5File =
  proj_params :: "FrameTransform option"
  specimens :: "string \<rightharpoonup> H5Specimen"

record SamplingToolData =
  ct_vol_center :: Pt3
  pd_cam :: CameraModel
  gt_cam_extrins_to_pelvis_vol :: FrameTransform

text \<open>
  The data of a run whose camera was set up from the extrinsic transform, with the given
  centre of the volume and the given (corrected) ground-truth pose.
\<close>

definition tool_data :: "Pt3 \<Rightarrow> FrameTransform \<Rightarrow> FrameTransform \<Rightarrow> SamplingToolData" where
  "tool_data center extrinsic gt =
     \<lparr> ct_vol_center = center, pd_cam = cam_setup extrinsic, gt_cam_extrins_to_pelvis_vol = gt \<rparr>"

datatype loop_stage = CreateEdges | SaveRawDRR | SaveDRRRemap | SaveEdges | SaveEdgesOverlay

datatype exn = H5OpenFailed | xregThrow string | CollaboratorFailed nat loop_stage

definition gt_corr :: FrameTransform where
  "gt_corr = set_translation Identity (Pt3 (- 0.5) (- 0.5) (- 0.5))"

definition ReadPelvisVolProjAndGtFromH5File ::
  "(string \<rightharpoonup> H5File) \<Rightarrow> string \<Rightarrow> string \<Rightarrow> nat \<Rightarrow> exn + SamplingToolData" where
  "ReadPelvisVolProjAndGtFromH5File files h5_path spec_id_str proj_idx =
     (case files h5_path of
        None \<Rightarrow> Inl H5OpenFailed
      | Some h5 \<Rightarrow>
         (case proj_params h5 of
            None \<Rightarrow> Inl (xregThrow ''proj-params group not found in HDF5 file!'')
          | Some extrinsic \<Rightarrow>
             (case specimens h5 spec_id_str of
                None \<Rightarrow> Inl (xregThrow (''specimen ID not found in HDF5 file: '' @ spec_id_str))
              | Some spec_g \<Rightarrow>
                 (case projections spec_g (fmt_03d proj_idx) of
                    None \<Rightarrow> Inl (xregThrow (''projection not found: '' @ fmt_03d proj_idx))
                  | Some gt \<Rightarrow>
                      Inr \<lparr> ct_vol_center = pelvis_center spec_g,
                            pd_cam = cam_setup extrinsic,
                            gt_cam_extrins_to_pelvis_vol = xf_mul gt_corr gt \<rparr>))))"

subsection \<open>The anchoring of an offset at the centre of rotation\<close>

definition center_of_rot_wrt_cam_proj_frame :: "SamplingToolData \<Rightarrow> Pt3" where
  "center_of_rot_wrt_cam_proj_frame d =
     xf_pt (xf_mul (extrins (pd_cam d)) (xf_inverse (gt_cam_extrins_to_pelvis_vol d)))
           (ct_vol_center d)"

definition cam_proj_frame_shift_from_center_of_rot :: "SamplingToolData \<Rightarrow> FrameTransform" where
  "cam_proj_frame_shift_from_center_of_rot d =
     set_translation Identity (center_of_rot_wrt_cam_proj_frame d)"

definition cam_proj_frame_shift_to_center_of_rot :: "SamplingToolData \<Rightarrow> FrameTransform" where
  "cam_proj_frame_shift_to_center_of_rot d =
     set_translation Identity (pt_neg (center_of_rot_wrt_cam_proj_frame d))"

definition cam_extrins_to_center_of_rot_in_proj_frame :: "SamplingToolData \<Rightarrow> FrameTransform" where
  "cam_extrins_to_center_of_rot_in_proj_frame d =
     xf_mul (cam_proj_frame_shift_to_center_of_rot d) (extrins (pd_cam d))"

definition center_of_rot_in_proj_frame_to_vol :: "SamplingToolData \<Rightarrow> FrameTransform" where
  "center_of_rot_in_proj_frame_to_vol d =
     xf_mul (xf_mul (gt_cam_extrins_to_pelvis_vol d) (extrins_inv (pd_cam d)))
            (cam_proj_frame_shift_from_center_of_rot d)"

definition cam_extrins_to_vol :: "SamplingToolData \<Rightarrow> FrameTransform \<Rightarrow> FrameTransform" where
  "cam_extrins_to_vol d gt_off =
     xf_mul (xf_mul (center_of_rot_in_proj_frame_to_vol d) gt_off)
            (cam_extrins_to_center_of_rot_in_proj_frame d)"

text \<open>
  The anchoring as the spec words it (4.3, steps 1 to 6), from the extrinsic transform,
  the ground-truth pose and the anchor point in volume coordinates.
\<close>

definition anchor_cam_spec :: "FrameTransform \<Rightarrow> FrameTransform \<Rightarrow> Pt3 \<Rightarrow> Pt3" where
  "anchor_cam_spec extrinsic ground_truth anchor_volume =
     xf_pt extrinsic (xf_pt (xf_inverse ground_truth) anchor_volume)"

definition ShiftFrom_spec :: "FrameTransform \<Rightarrow> FrameTransform \<Rightarrow> Pt3 \<Rightarrow> FrameTransform" where
  "ShiftFrom_spec extrinsic ground_truth anchor_volume =
     FrameTransform mat_id (anchor_cam_spec extrinsic ground_truth anchor_volume)"

definition ShiftTo_spec :: "FrameTransform \<Rightarrow> FrameTransform \<Rightarrow> Pt3 \<Rightarrow> FrameTransform" where
  "ShiftTo_spec extrinsic ground_truth anchor_volume =
     FrameTransform mat_id (pt_neg (anchor_cam_spec extrinsic ground_truth anchor_volume))"

definition PreOffset_spec :: "FrameTransform \<Rightarrow> FrameTransform \<Rightarrow> Pt3 \<Rightarrow> FrameTransform" where
  "PreOffset_spec extrinsic ground_truth anchor_volume =
     xf_mul (ShiftTo_spec extrinsic ground_truth anchor_volume) extrinsic"

definition PostOffset_spec :: "FrameTransform \<Rightarrow> FrameTransform \<Rightarrow> Pt3 \<Rightarrow> FrameTransform" where
  "PostOffset_spec extrinsic ground_truth anchor_volume =
     xf_mul ground_truth
       (xf_mul (xf_inverse extrinsic) (ShiftFrom_spec extrinsic ground_truth anchor_volume))"

definition Composite_spec ::
  "FrameTransform \<Rightarrow> FrameTransform \<Rightarrow> Pt3 \<Rightarrow> FrameTransform \<Rightarrow> FrameTransform" where
  "Composite_spec extrinsic ground_truth anchor_volume T =
     xf_mul (PostOffset_spec extrinsic ground_truth anchor_volume)
       (xf_mul T (PreOffset_spec extrinsic ground_truth anchor_volume))"

subsection \<open>The program\<close>

datatype event =
    Cerr string
  | MakeDirRecursive string
  | DrawSamples nat
  | EdgesFromRayCast FrameTransform
  | WriteITKImageToDisk string
  | imwrite string
  | WriteCSVFile string "CoordScalar list list" "string list"

datatype outcome = Return int | Terminate exn

definition kEXIT_VAL_SUCCESS :: int where
  "kEXIT_VAL_SUCCESS = 0"

definition kEXIT_VAL_BAD_USE :: int where
  "kEXIT_VAL_BAD_USE = 1"

definition kEXIT_VAL_BAD_INPUT_HDF5 :: int where
  "kEXIT_VAL_BAD_INPUT_HDF5 = 2"

text \<open>
  The command line after \<^verbatim>\<open>po.parse\<close> and the casts of the positional arguments:
  \<^verbatim>\<open>proj_idx\<close> and \<^verbatim>\<open>num_samples\<close> have the unsigned type \<^verbatim>\<open>size_type\<close>, 64 bits wide.
\<close>

record prog_opts =
  help_set :: bool
  ipcai_h5_data_path :: string
  spec_id_str :: string
  proj_idx :: "64 word"
  num_samples :: "64 word"
  dst_dir_path :: string
  rng_seed :: "32 word option"

datatype parse_result = ParseException | Parsed prog_opts

datatype path_status = Missing | IsDirectory | NotADirectory

text \<open>
  What the run meets outside the program: the state of the output path, the seed the
  random device would give, the HDF5 files, which calls of the rendering and
  image-writing collaborators throw (by sample index and stage), the variates of the
  random engine, and the Euler-angle extraction of the library. The image and volume
  conversions between the reading of the data and the loop have no effect that
  \<^verbatim>\<open>main\<close> observes and are taken to return.
\<close>

record environment =
  dst_dir :: path_status
  rand_dev :: "32 word"
  h5_files :: "string \<rightharpoonup> H5File"
  throws :: "nat \<Rightarrow> loop_stage \<Rightarrow> bool"
  normal_variate :: "32 word \<Rightarrow> nat \<Rightarrow> CoordScalar"
  euler_xyz :: "Mat3x3 \<Rightarrow> CoordScalar \<times> CoordScalar \<times> CoordScalar"

text \<open>The variables of \<^verbatim>\<open>main\<close> that outlive a statement, and the trace.\<close>

record prog_state =
  rng_eng :: mt19937
  pose_param_samples :: "CoordScalar list list"
  sampled_cam_to_pelvis_vol :: "FrameTransform list"
  sampled_decomp_offsets :: "CoordScalar list list"
  sampled_poses_csv :: "CoordScalar list list"
  pose_params_csv :: "CoordScalar list list"
  trace :: "event list"

definition init_state :: prog_state where
  "init_state = \<lparr> rng_eng = default_engine, pose_param_samples = [],
                  sampled_cam_to_pelvis_vol = [], sampled_decomp_offsets = [],
                  sampled_poses_csv = [], pose_params_csv = [], trace = [] \<rparr>"

definition emit :: "event \<Rightarrow> prog_state \<Rightarrow> prog_state" where
  "emit e st = st\<lparr>trace := trace st @ [e]\<rparr>"

text \<open>
  The engine after seeding: with the seed of the command line when one is given, with
  one from the random device otherwise.
\<close>

definition seeded_engine :: "environment \<Rightarrow> prog_opts \<Rightarrow> mt19937" where
  "seeded_engine env po =
     \<lparr> seed = (case rng_seed po of Some user_seed \<Rightarrow> user_seed | None \<Rightarrow> rand_dev env),
       consumed = 0 \<rparr>"

text \<open>The three rows that one iteration of the loop appends to the tables.\<close>

definition pose_csv_row :: "FrameTransform \<Rightarrow> CoordScalar list" where
  "pose_csv_row gt_off = concat (map (\<lambda>r. map (\<lambda>c. matrix gt_off r c) [0..<4]) [0..<4])"

definition pose_params_csv_row :: "CoordScalar list list \<Rightarrow> nat \<Rightarrow> CoordScalar list" where
  "pose_params_csv_row samples sample_idx = map (\<lambda>i. samples ! sample_idx ! i) [0..<6]"

definition decomp_offset_row ::
  "(Mat3x3 \<Rightarrow> CoordScalar \<times> CoordScalar \<times> CoordScalar) \<Rightarrow> FrameTransform \<Rightarrow> CoordScalar list" where
  "decomp_offset_row euler gt_off =
     (case ComputeRotAngTransMag gt_off of (rot_ang, trans_mag) \<Rightarrow>
        (case RigidXformToEulerXYZAndTrans euler gt_off of (rot_x, rot_y, rot_z, trans_x, trans_y, trans_z) \<Rightarrow>
           [rot_ang * kRAD2DEG, trans_mag,
            rot_x * kRAD2DEG, rot_y * kRAD2DEG, rot_z * kRAD2DEG,
            trans_x, trans_y, trans_z]))"

text \<open>
  The calls of one iteration that reach a collaborator, in order: each either throws,
  which ends the run there, or leaves its event in the trace.
\<close>

fun perform ::
  "(loop_stage \<Rightarrow> bool) \<Rightarrow> nat \<Rightarrow> (loop_stage \<times> event) list \<Rightarrow> prog_state \<Rightarrow> exn option \<times> prog_state" where
  "perform thr sample_idx [] st = (None, st)"
| "perform thr sample_idx ((stage, e) # calls) st =
     (if thr stage then (Some (CollaboratorFailed sample_idx stage), st)
      else perform thr sample_idx calls (emit e st))"

definition sample_calls :: "string \<Rightarrow> nat \<Rightarrow> FrameTransform \<Rightarrow> (loop_stage \<times> event) list" where
  "sample_calls dst sample_idx pose =
     (let sample_idx_str = fmt_03d sample_idx in
      [(CreateEdges, EdgesFromRayCast pose),
       (SaveRawDRR, WriteITKImageToDisk (dst @ ''/drr_raw_'' @ sample_idx_str @ ''.nii.gz'')),
       (SaveDRRRemap, imwrite (dst @ ''/drr_remap_'' @ sample_idx_str @ ''.png'')),
       (SaveEdges, imwrite (dst @ ''/edges_'' @ sample_idx_str @ ''.png'')),
       (SaveEdgesOverlay, imwrite (dst @ ''/edges_overlay_'' @ sample_idx_str @ ''.png''))])"

definition loop_body ::
  "environment \<Rightarrow> string \<Rightarrow> SamplingToolData \<Rightarrow> nat \<Rightarrow> prog_state \<Rightarrow> exn option \<times> prog_state" where
  "loop_body env dst d sample_idx st =
     (let gt_off = se3 (pose_param_samples st ! sample_idx);
          st1 = st\<lparr>sampled_poses_csv := sampled_poses_csv st @ [pose_csv_row gt_off]\<rparr>;
          st2 = st1\<lparr>pose_params_csv :=
                      pose_params_csv st1 @ [pose_params_csv_row (pose_param_samples st) sample_idx]\<rparr>;
          st3 = st2\<lparr>sampled_decomp_offsets :=
                      sampled_decomp_offsets st2 @ [decomp_offset_row (euler_xyz env) gt_off]\<rparr>;
          pose = cam_extrins_to_vol d gt_off;
          st4 = st3\<lparr>sampled_cam_to_pelvis_vol := sampled_cam_to_pelvis_vol st3 @ [pose]\<rparr>
      in perform (throws env sample_idx) sample_idx (sample_calls dst sample_idx pose) st4)"

function sample_loop ::
  "environment \<Rightarrow> string \<Rightarrow> SamplingToolData \<Rightarrow> nat \<Rightarrow> nat \<Rightarrow> prog_state \<Rightarrow> exn option \<times> prog_state" where
  "sample_loop env dst d n sample_idx st =
     (if sample_idx < n then
        (let r = loop_body env dst d sample_idx st in
         if fst r = None then sample_loop env dst d n (Suc sample_idx) (snd r) else r)
      else (None, st))"
  by pat_completeness auto
termination
  by (relation "measure (\<lambda>(env, dst, d, n, sample_idx, st). n - sample_idx)") auto

declare sample_loop.simps [simp del]

definition write_tables :: "string \<Rightarrow> prog_state \<Rightarrow> prog_state" where
  "write_tables dst st =
     emit (WriteCSVFile (Path_plus dst ''cam_extrins_to_vol_poses.csv'') (sampled_poses_csv st)
             [''row1_col1'', ''row1_col2'', ''row1_col3'', ''row1_col4'',
              ''row2_col1'', ''row2_col2'', ''row2_col3'', ''row2_col4'',
              ''row3_col1'', ''row3_col2'', ''row3_col3'', ''row3_col4'',
              ''row4_col1'', ''row4_col2'', ''row4_col3'', ''row4_col4''])
      (emit (WriteCSVFile (Path_plus dst ''se3_lie_params.csv'') (pose_params_csv st)
               [''se3-dim-1'', ''se3-dim-2'', ''se3-dim-3'', ''se3-dim-4'', ''se3-dim-5'', ''se3-dim-6''])
        (emit (WriteCSVFile (Path_plus dst ''offset_amounts.csv'') (sampled_decomp_offsets st)
                 [''total rotation (deg)'', ''total trans. (mm)'',
                  ''rotation X (deg)'', ''rotation Y (deg)'', ''rotation Z (deg)'',
                  ''translation X (mm)'', ''translation Y (mm)'', ''translation Z (mm)''])
           st))"

text \<open>From the creation of the sampler to the end of \<^verbatim>\<open>main\<close>.\<close>

definition sample_and_render ::
  "environment \<Rightarrow> prog_opts \<Rightarrow> SamplingToolData \<Rightarrow> prog_state \<Rightarrow> outcome \<times> prog_state" where
  "sample_and_render env po d st =
     (case SamplePoseParams (normal_variate env) param_sampler (unat (num_samples po - 1)) (rng_eng st) of
        (drawn, rng') \<Rightarrow>
          (let st1 = emit (DrawSamples (unat (num_samples po - 1)))
                       (st\<lparr>rng_eng := rng', pose_param_samples := replicate 6 0 # drawn\<rparr>);
               r = sample_loop env (dst_dir_path po) d (unat (num_samples po)) 0 st1
           in case fst r of
                Some e \<Rightarrow> (Terminate e, snd r)
              | None \<Rightarrow> (Return kEXIT_VAL_SUCCESS, write_tables (dst_dir_path po) (snd r))))"

definition main :: "environment \<Rightarrow> parse_result \<Rightarrow> outcome \<times> prog_state" where
  "main env parsed =
     (case parsed of
        ParseException \<Rightarrow>
          (Return kEXIT_VAL_BAD_USE, emit (Cerr ''Error parsing command line arguments: '') init_state)
      | Parsed po \<Rightarrow>
          if help_set po then (Return kEXIT_VAL_SUCCESS, init_state)
          else if num_samples po < 1 then
            (Return kEXIT_VAL_BAD_USE, emit (Cerr ''number of samples must be positive!'') init_state)
          else if dst_dir env \<noteq> Missing \<and> dst_dir env \<noteq> IsDirectory then
            (Return kEXIT_VAL_BAD_USE,
             emit (Cerr (''ERROR: output directory path exists, but is not a directory: '' @ dst_dir_path po))
               init_state)
          else
            (let st1 = (if dst_dir env = Missing then emit (MakeDirRecursive (dst_dir_path po)) init_state
                        else init_state);
                 st2 = st1\<lparr>rng_eng := seeded_engine env po\<rparr>
             in case ReadPelvisVolProjAndGtFromH5File (h5_files env) (ipcai_h5_data_path po)
                       (spec_id_str po) (unat (proj_idx po)) of
                  Inl e \<Rightarrow> (Terminate e, st2)
                | Inr d \<Rightarrow> sample_and_render env po d st2))"

subsection \<open>Notions used in the statements\<close>

text \<open>The offset transform of a sample, and the events one iteration leaves in the trace.\<close>

definition offset_of :: "prog_state \<Rightarrow> nat \<Rightarrow> FrameTransform" where
  "offset_of st i = se3 (pose_param_samples st ! i)"

definition step_events :: "environment \<Rightarrow> string \<Rightarrow> SamplingToolData \<Rightarrow> prog_state \<Rightarrow> nat \<Rightarrow> event list" where
  "step_events env dst d st i =
     map snd (takeWhile (\<lambda>c. \<not> throws env i (fst c))
                (sample_calls dst i (cam_extrins_to_vol d (offset_of st i))))"

text \<open>
  A run reaches the sampling when the command line parses, help is not requested, the
  sample count passes the guard, the output path is not an existing non-directory, and
  the data are read without an exception.
\<close>

definition reaches_sampling ::
  "environment \<Rightarrow> parse_result \<Rightarrow> prog_opts \<Rightarrow> SamplingToolData \<Rightarrow> bool" where
  "reaches_sampling env parsed po d \<longleftrightarrow>
     parsed = Parsed po \<and> \<not> help_set po \<and> \<not> num_samples po < 1 \<and> dst_dir env \<noteq> NotADirectory \<and>
     ReadPelvisVolProjAndGtFromH5File (h5_files env) (ipcai_h5_data_path po) (spec_id_str po)
       (unat (proj_idx po)) = Inr d"

text \<open>The state in which such a run enters the loop over the samples.\<close>

definition drawn_params :: "environment \<Rightarrow> prog_opts \<Rightarrow> CoordScalar list list \<times> mt19937" where
  "drawn_params env po =
     SamplePoseParams (normal_variate env) param_sampler (unat (num_samples po - 1))
       (seeded_engine env po)"

definition loop_entry_state :: "environment \<Rightarrow> prog_opts \<Rightarrow> prog_state" where
  "loop_entry_state env po =
     init_state\<lparr> rng_eng := snd (drawn_params env po),
                 pose_param_samples := replicate 6 0 # fst (drawn_params env po),
                 trace := (if dst_dir env = Missing then [MakeDirRecursive (dst_dir_path po)] else [])
                            @ [DrawSamples (unat (num_samples po - 1))] \<rparr>"

definition table_writes :: "string \<Rightarrow> prog_state \<Rightarrow> event list" where
  "table_writes dst st =
     [WriteCSVFile (Path_plus dst ''offset_amounts.csv'') (sampled_decomp_offsets st)
        [''total rotation (deg)'', ''total trans. (mm)'',
         ''rotation X (deg)'', ''rotation Y (deg)'', ''rotation Z (deg)'',
         ''translation X (mm)'', ''translation Y (mm)'', ''translation Z (mm)''],
      WriteCSVFile (Path_plus dst ''se3_lie_params.csv'') (pose_params_csv st)
        [''se3-dim-1'', ''se3-dim-2'', ''se3-dim-3'', ''se3-dim-4'', ''se3-dim-5'', ''se3-dim-6''],
      WriteCSVFile (Path_plus dst ''cam_extrins_to_vol_poses.csv'') (sampled_poses_csv st)
        [''row1_col1'', ''row1_col2'', ''row1_col3'', ''row1_col4'',
         ''row2_col1'', ''row2_col2'', ''row2_col3'', ''row2_col4'',
         ''row3_col1'', ''row3_col2'', ''row3_col3'', ''row3_col4'',
         ''row4_col1'', ''row4_col2'', ''row4_col3'', ''row4_col4'']]"

fun is_table_write :: "event \<Rightarrow> bool" where
  "is_table_write (WriteCSVFile path rows header) = True"
| "is_table_write e = False"

fun is_draw :: "event \<Rightarrow> bool" where
  "is_draw (DrawSamples n) = True"
| "is_draw e = False"

fun is_render :: "event \<Rightarrow> bool" where
  "is_render (EdgesFromRayCast pose) = True"
| "is_render e = False"

text \<open>The four image artifacts of a sample.\<close>

definition sample_artifacts :: "string \<Rightarrow> nat \<Rightarrow> event list" where
  "sample_artifacts dst sample_idx =
     [WriteITKImageToDisk (dst @ ''/drr_raw_'' @ fmt_03d sample_idx @ ''.nii.gz''),
      imwrite (dst @ ''/drr_remap_'' @ fmt_03d sample_idx @ ''.png''),
      imwrite (dst @ ''/edges_'' @ fmt_03d sample_idx @ ''.png''),
      imwrite (dst @ ''/edges_overlay_'' @ fmt_03d sample_idx @ ''.png'')]"

text \<open>
  A small concrete run, used to instantiate the statements: one specimen with one
  projection whose stored pose and extrinsic matrix are the identity, a random engine
  whose rotation variates are 0 and whose translation variates are 1, and collaborators
  that throw where \<open>thr\<close> says.
\<close>

definition demo_h5 :: H5File where
  "demo_h5 = \<lparr> proj_params = Some Identity,
               specimens = [''17-1882'' \<mapsto>
                 \<lparr> pelvis_center = Pt3 0 0 0, projections = [''000'' \<mapsto> Identity] \<rparr>] \<rparr>"

definition demo_env :: "path_status \<Rightarrow> (nat \<Rightarrow> loop_stage \<Rightarrow> bool) \<Rightarrow> environment" where
  "demo_env status thr =
     \<lparr> dst_dir = status, rand_dev = 7, h5_files = [''ipcai.h5'' \<mapsto> demo_h5], throws = thr,
       normal_variate = (\<lambda>s k. if k mod 6 < 3 then 0 else 1),
       euler_xyz = (\<lambda>R. (0, 0, 0)) \<rparr>"

definition demo_opts :: "64 word \<Rightarrow> prog_opts" where
  "demo_opts n =
     \<lparr> help_set = False, ipcai_h5_data_path = ''ipcai.h5'', spec_id_str = ''17-1882'',
       proj_idx = 0, num_samples = n, dst_dir_path = ''out'', rng_seed = Some 42 \<rparr>"

definition demo_data :: SamplingToolData where
  "demo_data = tool_data (Pt3 0 0 0) Identity gt_corr"

subsection \<open>The command line\<close>






section \<open>Properties\<close>

subsection \<open>Algebra of points, matrices and transforms\<close>

lemma Mat3x3_cases: obtains a b c d e f g h i where "M = Mat3x3 (Pt3 a b c) (Pt3 d e f) (Pt3 g h i)"
  by (cases M; metis Pt3.exhaust)

lemma mat_mul_assoc: "mat_mul (mat_mul A B) C = mat_mul A (mat_mul B C)"
  by (cases A rule: Mat3x3_cases; cases B rule: Mat3x3_cases; cases C rule: Mat3x3_cases)
     (simp add: mat_mul_def algebra_simps)

lemma mat_vec_mul: "mat_vec (mat_mul A B) p = mat_vec A (mat_vec B p)"
  by (cases A rule: Mat3x3_cases; cases B rule: Mat3x3_cases; cases p)
     (simp add: mat_mul_def algebra_simps)

lemma mat_vec_add: "mat_vec A (pt_add p q) = pt_add (mat_vec A p) (mat_vec A q)"
  by (cases A rule: Mat3x3_cases; cases p; cases q) (simp add: algebra_simps)

lemma mat_vec_neg: "mat_vec A (pt_neg p) = pt_neg (mat_vec A p)"
  by (cases A rule: Mat3x3_cases; cases p) (simp add: algebra_simps)

lemma mat_vec_zero: "mat_vec A pt_zero = pt_zero"
  by (cases A rule: Mat3x3_cases) (simp add: pt_zero_def)

lemma mat_id_vec: "mat_vec mat_id p = p"
  by (cases p) (simp add: mat_id_def)

lemma mat_mul_id_left: "mat_mul mat_id A = A"
  by (cases A rule: Mat3x3_cases) (simp add: mat_mul_def mat_id_def)

lemma mat_mul_id_right: "mat_mul A mat_id = A"
  by (cases A rule: Mat3x3_cases) (simp add: mat_mul_def mat_id_def)

lemma pt_add_assoc: "pt_add (pt_add p q) r = pt_add p (pt_add q r)"
  by (cases p; cases q; cases r) simp

lemma pt_add_zero_left: "pt_add pt_zero p = p"
  by (cases p) (simp add: pt_zero_def)

lemma pt_add_zero_right: "pt_add p pt_zero = p"
  by (cases p) (simp add: pt_zero_def)

lemma pt_add_neg: "pt_add p (pt_neg p) = pt_zero"
  by (cases p) (simp add: pt_zero_def)

lemma pt_neg_add: "pt_add (pt_neg p) p = pt_zero"
  by (cases p) (simp add: pt_zero_def)

lemma pt_sub_self: "pt_sub p p = pt_zero"
  by (cases p) (simp add: pt_zero_def)

lemma norm3_zero: "norm3 pt_zero = 0"
  by (simp add: norm3_def pt_zero_def)

lemma xf_mul_assoc: "xf_mul (xf_mul A B) C = xf_mul A (xf_mul B C)"
  by (simp add: xf_mul_def mat_mul_assoc mat_vec_mul mat_vec_add pt_add_assoc)

lemma xf_pt_mul: "xf_pt (xf_mul A B) p = xf_pt A (xf_pt B p)"
  by (simp add: xf_mul_def xf_pt_def mat_vec_mul mat_vec_add pt_add_assoc)

lemma xf_mul_Identity_left: "xf_mul Identity A = A"
  by (simp add: xf_mul_def Identity_def mat_mul_id_left mat_id_vec pt_add_zero_right)

lemma xf_mul_Identity_right: "xf_mul A Identity = A"
  by (simp add: xf_mul_def Identity_def mat_mul_id_right mat_vec_zero pt_add_zero_left)

lemma mat_mul_scale_left: "mat_mul (mat_scale k A) B = mat_scale k (mat_mul A B)"
  by (cases A rule: Mat3x3_cases; cases B rule: Mat3x3_cases) (simp add: mat_mul_def algebra_simps)

lemma mat_mul_scale_right: "mat_mul A (mat_scale k B) = mat_scale k (mat_mul A B)"
  by (cases A rule: Mat3x3_cases; cases B rule: Mat3x3_cases) (simp add: mat_mul_def algebra_simps)

lemma adjugate_left: "mat_mul (adjugate M) M = mat_scale (determinant M) mat_id"
  by (cases M rule: Mat3x3_cases) (simp add: mat_mul_def mat_id_def algebra_simps)

lemma adjugate_right: "mat_mul M (adjugate M) = mat_scale (determinant M) mat_id"
  by (cases M rule: Mat3x3_cases) (simp add: mat_mul_def mat_id_def algebra_simps)

lemma mat_scale_scale: "mat_scale k (mat_scale l M) = mat_scale (k * l) M"
  by (cases M rule: Mat3x3_cases) (simp add: algebra_simps)

lemma mat_scale_one: "mat_scale 1 M = M"
  by (cases M rule: Mat3x3_cases) simp

lemma mat_inverse_left: "determinant M \<noteq> 0 \<Longrightarrow> mat_mul (mat_inverse M) M = mat_id"
  by (simp add: mat_inverse_def mat_mul_scale_left adjugate_left mat_scale_scale mat_scale_one)

lemma mat_inverse_right: "determinant M \<noteq> 0 \<Longrightarrow> mat_mul M (mat_inverse M) = mat_id"
  by (simp add: mat_inverse_def mat_mul_scale_right adjugate_right mat_scale_scale mat_scale_one)

lemma xf_inverse_left: "invertible A \<Longrightarrow> xf_mul (xf_inverse A) A = Identity"
  by (simp add: invertible_def xf_mul_def xf_inverse_def Identity_def mat_inverse_left pt_add_neg)

lemma xf_inverse_right: "invertible A \<Longrightarrow> xf_mul A (xf_inverse A) = Identity"
  by (simp add: invertible_def xf_mul_def xf_inverse_def Identity_def mat_inverse_right
        mat_vec_neg mat_vec_mul [symmetric] mat_id_vec pt_neg_add)

lemma xf_pt_Identity: "xf_pt Identity p = p"
  by (simp add: xf_pt_def Identity_def mat_id_vec pt_add_zero_right)

lemma xf_inverse_pt_left: "invertible A \<Longrightarrow> xf_pt (xf_inverse A) (xf_pt A p) = p"
  by (simp add: xf_pt_mul [symmetric] xf_inverse_left xf_pt_Identity)

lemma xf_inverse_pt_right: "invertible A \<Longrightarrow> xf_pt A (xf_pt (xf_inverse A) p) = p"
  by (simp add: xf_pt_mul [symmetric] xf_inverse_right xf_pt_Identity)

lemma shift_from_to: "xf_mul (set_translation Identity v) (set_translation Identity (pt_neg v)) = Identity"
  by (simp add: xf_mul_def set_translation_def Identity_def mat_mul_id_left mat_id_vec pt_neg_add)

lemma shift_pt: "xf_pt (set_translation Identity v) p = pt_add p v"
  by (simp add: xf_pt_def set_translation_def Identity_def mat_id_vec)

lemma se3_zero: "se3 (replicate 6 0) = Identity"
  by (simp add: se3_def norm3_def Let_def Identity_def mat_id_def pt_zero_def mat_mul_def numeral_eq_Suc)

subsection \<open>The anchoring algebra\<close>

text \<open>
  C4: for a camera set up from the extrinsic transform, every intermediate transform that
  \<^verbatim>\<open>main\<close> builds is the one the spec names: the anchor in the camera projection frame
  is \<open>extrinsic \<cdot> ground_truth\<inverse> \<cdot> anchor_volume\<close>, ShiftFrom and ShiftTo are the identity
  with translation column plus and minus that point, PreOffset is ShiftTo \<cdot> extrinsic,
  PostOffset is ground_truth \<cdot> extrinsic\<inverse> \<cdot> ShiftFrom, and the composite pose of an
  offset \<open>T\<close> is PostOffset \<cdot> T \<cdot> PreOffset.
\<close>

theorem anchoring_matches_spec:
  "center_of_rot_wrt_cam_proj_frame (tool_data anchor_volume extrinsic ground_truth)
     = anchor_cam_spec extrinsic ground_truth anchor_volume
   \<and> cam_proj_frame_shift_from_center_of_rot (tool_data anchor_volume extrinsic ground_truth)
     = ShiftFrom_spec extrinsic ground_truth anchor_volume
   \<and> cam_proj_frame_shift_to_center_of_rot (tool_data anchor_volume extrinsic ground_truth)
     = ShiftTo_spec extrinsic ground_truth anchor_volume
   \<and> cam_extrins_to_center_of_rot_in_proj_frame (tool_data anchor_volume extrinsic ground_truth)
     = PreOffset_spec extrinsic ground_truth anchor_volume
   \<and> center_of_rot_in_proj_frame_to_vol (tool_data anchor_volume extrinsic ground_truth)
     = PostOffset_spec extrinsic ground_truth anchor_volume
   \<and> cam_extrins_to_vol (tool_data anchor_volume extrinsic ground_truth) T
     = Composite_spec extrinsic ground_truth anchor_volume T"
proof -
  define d where "d = tool_data anchor_volume extrinsic ground_truth"
  have a: "center_of_rot_wrt_cam_proj_frame d = anchor_cam_spec extrinsic ground_truth anchor_volume"
    by (simp add: d_def tool_data_def center_of_rot_wrt_cam_proj_frame_def anchor_cam_spec_def
          cam_setup_def xf_pt_mul)
  have f: "cam_proj_frame_shift_from_center_of_rot d = ShiftFrom_spec extrinsic ground_truth anchor_volume"
    by (simp add: a cam_proj_frame_shift_from_center_of_rot_def ShiftFrom_spec_def
          set_translation_def Identity_def)
  have t: "cam_proj_frame_shift_to_center_of_rot d = ShiftTo_spec extrinsic ground_truth anchor_volume"
    by (simp add: a cam_proj_frame_shift_to_center_of_rot_def ShiftTo_spec_def
          set_translation_def Identity_def)
  have pre: "cam_extrins_to_center_of_rot_in_proj_frame d = PreOffset_spec extrinsic ground_truth anchor_volume"
    by (simp add: t cam_extrins_to_center_of_rot_in_proj_frame_def PreOffset_spec_def)
       (simp add: d_def tool_data_def cam_setup_def)
  have post: "center_of_rot_in_proj_frame_to_vol d = PostOffset_spec extrinsic ground_truth anchor_volume"
    by (simp add: f center_of_rot_in_proj_frame_to_vol_def PostOffset_spec_def xf_mul_assoc)
       (simp add: d_def tool_data_def cam_setup_def)
  have comp: "cam_extrins_to_vol d T = Composite_spec extrinsic ground_truth anchor_volume T"
    by (simp add: pre post cam_extrins_to_vol_def Composite_spec_def xf_mul_assoc)
  from a f t pre post comp show ?thesis unfolding d_def by simp
qed


subsection \<open>The loop over the samples\<close>

lemma perform_fields:
  "rng_eng (snd (perform thr i calls st)) = rng_eng st"
  "pose_param_samples (snd (perform thr i calls st)) = pose_param_samples st"
  "sampled_cam_to_pelvis_vol (snd (perform thr i calls st)) = sampled_cam_to_pelvis_vol st"
  "sampled_decomp_offsets (snd (perform thr i calls st)) = sampled_decomp_offsets st"
  "sampled_poses_csv (snd (perform thr i calls st)) = sampled_poses_csv st"
  "pose_params_csv (snd (perform thr i calls st)) = pose_params_csv st"
  by (induction thr i calls st rule: perform.induct; simp add: emit_def)+

lemma perform_trace:
  "trace (snd (perform thr i calls st)) =
     trace st @ map snd (takeWhile (\<lambda>c. \<not> thr (fst c)) calls)"
  by (induction thr i calls st rule: perform.induct) (simp_all add: emit_def)

lemma perform_None:
  "fst (perform thr i calls st) = None \<longleftrightarrow> (\<forall>c \<in> set calls. \<not> thr (fst c))"
  by (induction thr i calls st rule: perform.induct) auto

lemma perform_Some:
  "fst (perform thr i calls st) = Some e \<Longrightarrow> \<exists>s. e = CollaboratorFailed i s \<and> thr s"
  by (induction thr i calls st rule: perform.induct) (auto split: if_splits)

lemma loop_body_fields:
  "rng_eng (snd (loop_body env dst d i st)) = rng_eng st"
  "pose_param_samples (snd (loop_body env dst d i st)) = pose_param_samples st"
  "sampled_cam_to_pelvis_vol (snd (loop_body env dst d i st)) =
     sampled_cam_to_pelvis_vol st @ [cam_extrins_to_vol d (offset_of st i)]"
  "sampled_decomp_offsets (snd (loop_body env dst d i st)) =
     sampled_decomp_offsets st @ [decomp_offset_row (euler_xyz env) (offset_of st i)]"
  "sampled_poses_csv (snd (loop_body env dst d i st)) =
     sampled_poses_csv st @ [pose_csv_row (offset_of st i)]"
  "pose_params_csv (snd (loop_body env dst d i st)) =
     pose_params_csv st @ [pose_params_csv_row (pose_param_samples st) i]"
  "trace (snd (loop_body env dst d i st)) = trace st @ step_events env dst d st i"
  by (simp_all add: loop_body_def Let_def perform_fields perform_trace offset_of_def step_events_def)

lemma loop_body_Some:
  "fst (loop_body env dst d i st) = Some e \<Longrightarrow> \<exists>s. e = CollaboratorFailed i s \<and> throws env i s"
  unfolding loop_body_def Let_def by (rule perform_Some)

lemma loop_body_None:
  "fst (loop_body env dst d i st) = None \<Longrightarrow>
     step_events env dst d st i = map snd (sample_calls dst i (cam_extrins_to_vol d (offset_of st i)))"
  unfolding loop_body_def Let_def step_events_def offset_of_def
  by (simp add: perform_None) (metis (mono_tags, lifting) takeWhile_eq_all_conv)

lemma offset_of_cong: "pose_param_samples st' = pose_param_samples st \<Longrightarrow> offset_of st' = offset_of st"
  by (simp add: offset_of_def fun_eq_iff)

lemma step_events_cong:
  "pose_param_samples st' = pose_param_samples st \<Longrightarrow> step_events env dst d st' = step_events env dst d st"
  by (simp add: step_events_def fun_eq_iff offset_of_def)

lemma sample_loop_step:
  "i < n \<Longrightarrow> fst (loop_body env dst d i st) = None \<Longrightarrow>
     sample_loop env dst d n i st = sample_loop env dst d n (Suc i) (snd (loop_body env dst d i st))"
  by (subst sample_loop.simps) (simp add: Let_def)

lemma sample_loop_fail:
  "i < n \<Longrightarrow> fst (loop_body env dst d i st) \<noteq> None \<Longrightarrow>
     sample_loop env dst d n i st = loop_body env dst d i st"
  by (subst sample_loop.simps) (auto simp add: Let_def)

lemma sample_loop_done: "\<not> i < n \<Longrightarrow> sample_loop env dst d n i st = (None, st)"
  by (subst sample_loop.simps) simp

lemma sample_loop_keeps:
  "rng_eng (snd (sample_loop env dst d n i st)) = rng_eng st \<and>
   pose_param_samples (snd (sample_loop env dst d n i st)) = pose_param_samples st"
proof (induction env dst d n i st rule: sample_loop.induct)
  case (1 env dst d n i st)
  consider (step) "i < n" "fst (loop_body env dst d i st) = None"
    | (fail) "i < n" "fst (loop_body env dst d i st) \<noteq> None"
    | (stop) "\<not> i < n" by blast
  then show ?case
  proof cases
    case step
    then show ?thesis
      using "1.IH" [OF step(1) refl step(2)] by (simp add: sample_loop_step loop_body_fields)
  next
    case fail
    then show ?thesis by (simp add: sample_loop_fail loop_body_fields)
  next
    case stop
    then show ?thesis by (simp add: sample_loop_done)
  qed
qed

lemma sample_loop_success:
  "fst (sample_loop env dst d n i st) = None \<Longrightarrow>
     sampled_cam_to_pelvis_vol (snd (sample_loop env dst d n i st)) =
       sampled_cam_to_pelvis_vol st @ map (\<lambda>j. cam_extrins_to_vol d (offset_of st j)) [i..<n]
   \<and> sampled_decomp_offsets (snd (sample_loop env dst d n i st)) =
       sampled_decomp_offsets st @ map (\<lambda>j. decomp_offset_row (euler_xyz env) (offset_of st j)) [i..<n]
   \<and> sampled_poses_csv (snd (sample_loop env dst d n i st)) =
       sampled_poses_csv st @ map (\<lambda>j. pose_csv_row (offset_of st j)) [i..<n]
   \<and> pose_params_csv (snd (sample_loop env dst d n i st)) =
       pose_params_csv st @ map (pose_params_csv_row (pose_param_samples st)) [i..<n]
   \<and> trace (snd (sample_loop env dst d n i st)) =
       trace st @ concat (map (\<lambda>j. map snd (sample_calls dst j (cam_extrins_to_vol d (offset_of st j)))) [i..<n])"
proof (induction env dst d n i st rule: sample_loop.induct)
  case (1 env dst d n i st)
  consider (step) "i < n" "fst (loop_body env dst d i st) = None"
    | (fail) "i < n" "fst (loop_body env dst d i st) \<noteq> None"
    | (stop) "\<not> i < n" by blast
  then show ?case
  proof cases
    case step
    let ?st1 = "snd (loop_body env dst d i st)"
    have eq: "sample_loop env dst d n i st = sample_loop env dst d n (Suc i) ?st1"
      using step by (rule sample_loop_step)
    have off: "offset_of ?st1 = offset_of st"
      by (rule offset_of_cong) (simp add: loop_body_fields)
    have ih: "fst (sample_loop env dst d n (Suc i) ?st1) = None"
      using "1.prems" eq by simp
    note IH = "1.IH" [OF step(1) refl step(2) ih]
    show ?thesis
      using IH step(1)
      by (simp add: eq off loop_body_fields loop_body_None [OF step(2)] upt_conv_Cons)
  next
    case fail
    then show ?thesis using "1.prems" by (simp add: sample_loop_fail)
  next
    case stop
    then show ?thesis by (simp add: sample_loop_done)
  qed
qed

lemma sample_loop_failure:
  "fst (sample_loop env dst d n i st) = Some e \<Longrightarrow>
     \<exists>k s. e = CollaboratorFailed k s \<and> i \<le> k \<and> k < n \<and> throws env k s
      \<and> sampled_cam_to_pelvis_vol (snd (sample_loop env dst d n i st)) =
          sampled_cam_to_pelvis_vol st @ map (\<lambda>j. cam_extrins_to_vol d (offset_of st j)) [i..<Suc k]
      \<and> sampled_decomp_offsets (snd (sample_loop env dst d n i st)) =
          sampled_decomp_offsets st @ map (\<lambda>j. decomp_offset_row (euler_xyz env) (offset_of st j)) [i..<Suc k]
      \<and> sampled_poses_csv (snd (sample_loop env dst d n i st)) =
          sampled_poses_csv st @ map (\<lambda>j. pose_csv_row (offset_of st j)) [i..<Suc k]
      \<and> pose_params_csv (snd (sample_loop env dst d n i st)) =
          pose_params_csv st @ map (pose_params_csv_row (pose_param_samples st)) [i..<Suc k]
      \<and> trace (snd (sample_loop env dst d n i st)) =
          trace st @ concat (map (\<lambda>j. map snd (sample_calls dst j (cam_extrins_to_vol d (offset_of st j)))) [i..<k])
            @ step_events env dst d st k"
proof (induction env dst d n i st rule: sample_loop.induct)
  case (1 env dst d n i st)
  consider (step) "i < n" "fst (loop_body env dst d i st) = None"
    | (fail) "i < n" "fst (loop_body env dst d i st) \<noteq> None"
    | (stop) "\<not> i < n" by blast
  then show ?case
  proof cases
    case step
    let ?st1 = "snd (loop_body env dst d i st)"
    have eq: "sample_loop env dst d n i st = sample_loop env dst d n (Suc i) ?st1"
      using step by (rule sample_loop_step)
    have pps: "pose_param_samples ?st1 = pose_param_samples st"
      by (simp add: loop_body_fields)
    have off: "offset_of ?st1 = offset_of st"
      using pps by (rule offset_of_cong)
    have sev: "step_events env dst d ?st1 = step_events env dst d st"
      using pps by (rule step_events_cong)
    have ih: "fst (sample_loop env dst d n (Suc i) ?st1) = Some e"
      using "1.prems" eq by simp
    from "1.IH" [OF step(1) refl step(2) ih] obtain k s where
      ks: "e = CollaboratorFailed k s" "Suc i \<le> k" "k < n" "throws env k s"
      and t1: "sampled_cam_to_pelvis_vol (snd (sample_loop env dst d n (Suc i) ?st1)) =
          sampled_cam_to_pelvis_vol ?st1 @ map (\<lambda>j. cam_extrins_to_vol d (offset_of ?st1 j)) [Suc i..<Suc k]"
      and t2: "sampled_decomp_offsets (snd (sample_loop env dst d n (Suc i) ?st1)) =
          sampled_decomp_offsets ?st1 @ map (\<lambda>j. decomp_offset_row (euler_xyz env) (offset_of ?st1 j)) [Suc i..<Suc k]"
      and t3: "sampled_poses_csv (snd (sample_loop env dst d n (Suc i) ?st1)) =
          sampled_poses_csv ?st1 @ map (\<lambda>j. pose_csv_row (offset_of ?st1 j)) [Suc i..<Suc k]"
      and t4: "pose_params_csv (snd (sample_loop env dst d n (Suc i) ?st1)) =
          pose_params_csv ?st1 @ map (pose_params_csv_row (pose_param_samples ?st1)) [Suc i..<Suc k]"
      and t5: "trace (snd (sample_loop env dst d n (Suc i) ?st1)) =
          trace ?st1 @ concat (map (\<lambda>j. map snd (sample_calls dst j (cam_extrins_to_vol d (offset_of ?st1 j)))) [Suc i..<k])
            @ step_events env dst d ?st1 k"
      by blast
    have ik: "i < k" "i < Suc k" using ks(2) by simp_all
    show ?thesis
      apply (rule exI [of _ k], rule exI [of _ s])
      using ks ik t1 t2 t3 t4 t5
      by (simp add: eq off sev pps loop_body_fields loop_body_None [OF step(2)] upt_conv_Cons)
  next
    case fail
    then obtain e' where e': "fst (loop_body env dst d i st) = Some e'" by blast
    from loop_body_Some [OF e'] obtain s where s: "e' = CollaboratorFailed i s" "throws env i s" by blast
    have "e = e'" using "1.prems" fail e' by (simp add: sample_loop_fail)
    then show ?thesis
      using fail s
      by (intro exI [of _ i] exI [of _ s]) (simp add: sample_loop_fail loop_body_fields)
  next
    case stop
    then show ?thesis using "1.prems" by (simp add: sample_loop_done)
  qed
qed


subsection \<open>A run that reaches the sampling\<close>

lemma write_tables_fields:
  "rng_eng (write_tables dst st) = rng_eng st"
  "pose_param_samples (write_tables dst st) = pose_param_samples st"
  "sampled_cam_to_pelvis_vol (write_tables dst st) = sampled_cam_to_pelvis_vol st"
  "sampled_decomp_offsets (write_tables dst st) = sampled_decomp_offsets st"
  "sampled_poses_csv (write_tables dst st) = sampled_poses_csv st"
  "pose_params_csv (write_tables dst st) = pose_params_csv st"
  "trace (write_tables dst st) = trace st @ table_writes dst st"
  by (simp_all add: write_tables_def emit_def table_writes_def)

lemma table_writes_cong:
  "sampled_decomp_offsets st' = sampled_decomp_offsets st \<Longrightarrow> pose_params_csv st' = pose_params_csv st \<Longrightarrow>
   sampled_poses_csv st' = sampled_poses_csv st \<Longrightarrow> table_writes dst st' = table_writes dst st"
  by (simp add: table_writes_def)

lemma main_reaches:
  assumes "reaches_sampling env parsed po d"
  shows "main env parsed =
     (case fst (sample_loop env (dst_dir_path po) d (unat (num_samples po)) 0 (loop_entry_state env po)) of
        Some e \<Rightarrow> (Terminate e, snd (sample_loop env (dst_dir_path po) d (unat (num_samples po)) 0 (loop_entry_state env po)))
      | None \<Rightarrow> (Return kEXIT_VAL_SUCCESS,
                 write_tables (dst_dir_path po)
                   (snd (sample_loop env (dst_dir_path po) d (unat (num_samples po)) 0 (loop_entry_state env po)))))"
  using assms
  by (cases "dst_dir env")
     (simp_all add: reaches_sampling_def main_def sample_and_render_def Let_def case_prod_beta
        drawn_params_def loop_entry_state_def emit_def init_state_def
      cong del: option.case_cong_weak)


lemma draw_dims_facts:
  "length (fst (draw_dims nv ms rng)) = length ms \<and>
   seed (snd (draw_dims nv ms rng)) = seed rng \<and>
   consumed (snd (draw_dims nv ms rng)) = consumed rng + length ms"
  by (induction nv ms rng rule: draw_dims.induct) (simp_all add: case_prod_beta)

lemma draw_samples_facts:
  "length (fst (draw_samples nv mvn n rng)) = n \<and>
   (\<forall>c \<in> set (fst (draw_samples nv mvn n rng)). length c = min (length (mean mvn)) (length (std_devs mvn))) \<and>
   seed (snd (draw_samples nv mvn n rng)) = seed rng \<and>
   consumed (snd (draw_samples nv mvn n rng)) =
     consumed rng + n * min (length (mean mvn)) (length (std_devs mvn))"
  by (induction n arbitrary: rng) (simp_all add: case_prod_beta draw_dims_facts)

lemma SamplePoseParams_none: "SamplePoseParams nv sampler 0 rng = ([], rng)"
  by (simp add: SamplePoseParams_def)

lemma drawn_params_facts:
  "length (fst (drawn_params env po)) = unat (num_samples po - 1) \<and>
   (\<forall>c \<in> set (fst (drawn_params env po)). length c = 6) \<and>
   seed (snd (drawn_params env po)) = seed (seeded_engine env po) \<and>
   consumed (snd (drawn_params env po)) = 6 * unat (num_samples po - 1)"
  using draw_samples_facts [of "normal_variate env" "dist_ptr param_sampler"
      "unat (num_samples po - 1)" "seeded_engine env po"]
  by (simp add: drawn_params_def SamplePoseParams_def param_sampler_def
        PoseParamSamplerIndepNormalDims_ctor_def seeded_engine_def)

lemma entry_fields:
  "rng_eng (loop_entry_state env po) = snd (drawn_params env po)"
  "pose_param_samples (loop_entry_state env po) = replicate 6 0 # fst (drawn_params env po)"
  "sampled_cam_to_pelvis_vol (loop_entry_state env po) = []"
  "sampled_decomp_offsets (loop_entry_state env po) = []"
  "sampled_poses_csv (loop_entry_state env po) = []"
  "pose_params_csv (loop_entry_state env po) = []"
  by (simp_all add: loop_entry_state_def init_state_def)

lemma run_keeps:
  assumes "reaches_sampling env parsed po d"
  shows "rng_eng (snd (main env parsed)) = snd (drawn_params env po)"
    and "pose_param_samples (snd (main env parsed)) = replicate 6 0 # fst (drawn_params env po)"
  using sample_loop_keeps [of env "dst_dir_path po" d "unat (num_samples po)" 0 "loop_entry_state env po"]
  by (simp_all add: main_reaches [OF assms] write_tables_fields entry_fields split: option.split)

lemma run_outcome:
  assumes "reaches_sampling env parsed po d"
  shows "fst (main env parsed) = Return kEXIT_VAL_SUCCESS
       \<or> (\<exists>k s. fst (main env parsed) = Terminate (CollaboratorFailed k s))"
proof (cases "fst (sample_loop env (dst_dir_path po) d (unat (num_samples po)) 0 (loop_entry_state env po))")
  case None
  then show ?thesis by (simp add: main_reaches [OF assms])
next
  case (Some e)
  from sample_loop_failure [OF Some] obtain k s where "e = CollaboratorFailed k s" by blast
  then show ?thesis using Some by (simp add: main_reaches [OF assms])
qed

lemma run_success:
  assumes r: "reaches_sampling env parsed po d"
    and ok: "fst (main env parsed) = Return c"
  shows "c = kEXIT_VAL_SUCCESS"
    and "sampled_cam_to_pelvis_vol (snd (main env parsed)) =
           map (\<lambda>j. cam_extrins_to_vol d (offset_of (loop_entry_state env po) j)) [0..<unat (num_samples po)]"
    and "sampled_decomp_offsets (snd (main env parsed)) =
           map (\<lambda>j. decomp_offset_row (euler_xyz env) (offset_of (loop_entry_state env po) j)) [0..<unat (num_samples po)]"
    and "sampled_poses_csv (snd (main env parsed)) =
           map (\<lambda>j. pose_csv_row (offset_of (loop_entry_state env po) j)) [0..<unat (num_samples po)]"
    and "pose_params_csv (snd (main env parsed)) =
           map (pose_params_csv_row (pose_param_samples (loop_entry_state env po))) [0..<unat (num_samples po)]"
    and "trace (snd (main env parsed)) =
           trace (loop_entry_state env po)
           @ concat (map (\<lambda>j. map snd (sample_calls (dst_dir_path po) j
                        (cam_extrins_to_vol d (offset_of (loop_entry_state env po) j)))) [0..<unat (num_samples po)])
           @ table_writes (dst_dir_path po) (snd (main env parsed))"
proof -
  let ?r = "sample_loop env (dst_dir_path po) d (unat (num_samples po)) 0 (loop_entry_state env po)"
  have none: "fst ?r = None"
    using ok by (cases "fst ?r") (simp_all add: main_reaches [OF r])
  have m: "main env parsed = (Return kEXIT_VAL_SUCCESS, write_tables (dst_dir_path po) (snd ?r))"
    using none by (simp add: main_reaches [OF r])
  note S = sample_loop_success [OF none]
  show "c = kEXIT_VAL_SUCCESS" using ok m by simp
  show "sampled_cam_to_pelvis_vol (snd (main env parsed)) =
           map (\<lambda>j. cam_extrins_to_vol d (offset_of (loop_entry_state env po) j)) [0..<unat (num_samples po)]"
    using S by (simp add: m write_tables_fields entry_fields)
  show "sampled_decomp_offsets (snd (main env parsed)) =
           map (\<lambda>j. decomp_offset_row (euler_xyz env) (offset_of (loop_entry_state env po) j)) [0..<unat (num_samples po)]"
    using S by (simp add: m write_tables_fields entry_fields)
  show "sampled_poses_csv (snd (main env parsed)) =
           map (\<lambda>j. pose_csv_row (offset_of (loop_entry_state env po) j)) [0..<unat (num_samples po)]"
    using S by (simp add: m write_tables_fields entry_fields)
  show "pose_params_csv (snd (main env parsed)) =
           map (pose_params_csv_row (pose_param_samples (loop_entry_state env po))) [0..<unat (num_samples po)]"
    using S by (simp add: m write_tables_fields entry_fields)
  have tw: "table_writes (dst_dir_path po) (write_tables (dst_dir_path po) (snd ?r))
              = table_writes (dst_dir_path po) (snd ?r)"
    by (rule table_writes_cong) (simp_all add: write_tables_fields)
  show "trace (snd (main env parsed)) =
           trace (loop_entry_state env po)
           @ concat (map (\<lambda>j. map snd (sample_calls (dst_dir_path po) j
                        (cam_extrins_to_vol d (offset_of (loop_entry_state env po) j)))) [0..<unat (num_samples po)])
           @ table_writes (dst_dir_path po) (snd (main env parsed))"
    using S by (simp add: m write_tables_fields tw)
qed

lemma run_failure:
  assumes r: "reaches_sampling env parsed po d"
    and bad: "fst (main env parsed) = Terminate e"
  shows "\<exists>k s. e = CollaboratorFailed k s \<and> k < unat (num_samples po) \<and> throws env k s
      \<and> sampled_cam_to_pelvis_vol (snd (main env parsed)) =
           map (\<lambda>j. cam_extrins_to_vol d (offset_of (loop_entry_state env po) j)) [0..<Suc k]
      \<and> sampled_decomp_offsets (snd (main env parsed)) =
           map (\<lambda>j. decomp_offset_row (euler_xyz env) (offset_of (loop_entry_state env po) j)) [0..<Suc k]
      \<and> sampled_poses_csv (snd (main env parsed)) =
           map (\<lambda>j. pose_csv_row (offset_of (loop_entry_state env po) j)) [0..<Suc k]
      \<and> pose_params_csv (snd (main env parsed)) =
           map (pose_params_csv_row (pose_param_samples (loop_entry_state env po))) [0..<Suc k]
      \<and> trace (snd (main env parsed)) =
           trace (loop_entry_state env po)
           @ concat (map (\<lambda>j. map snd (sample_calls (dst_dir_path po) j
                        (cam_extrins_to_vol d (offset_of (loop_entry_state env po) j)))) [0..<k])
           @ step_events env (dst_dir_path po) d (loop_entry_state env po) k"
proof -
  let ?r = "sample_loop env (dst_dir_path po) d (unat (num_samples po)) 0 (loop_entry_state env po)"
  have some: "fst ?r = Some e"
    using bad by (cases "fst ?r") (simp_all add: main_reaches [OF r])
  have m: "main env parsed = (Terminate e, snd ?r)"
    using some by (simp add: main_reaches [OF r])
  from sample_loop_failure [OF some] show ?thesis
    by (simp add: m entry_fields)
qed

lemma run_begun:
  assumes r: "reaches_sampling env parsed po d"
  shows "\<exists>m. 0 < m \<and> m \<le> unat (num_samples po)
      \<and> sampled_cam_to_pelvis_vol (snd (main env parsed)) =
           map (\<lambda>j. cam_extrins_to_vol d (offset_of (loop_entry_state env po) j)) [0..<m]
      \<and> sampled_decomp_offsets (snd (main env parsed)) =
           map (\<lambda>j. decomp_offset_row (euler_xyz env) (offset_of (loop_entry_state env po) j)) [0..<m]
      \<and> sampled_poses_csv (snd (main env parsed)) =
           map (\<lambda>j. pose_csv_row (offset_of (loop_entry_state env po) j)) [0..<m]
      \<and> pose_params_csv (snd (main env parsed)) =
           map (pose_params_csv_row (pose_param_samples (loop_entry_state env po))) [0..<m]"
proof -
  have pos: "0 < unat (num_samples po)"
    using r by (simp add: reaches_sampling_def word_less_1 unat_gt_0)
  from run_outcome [OF r] show ?thesis
  proof
    assume ok: "fst (main env parsed) = Return kEXIT_VAL_SUCCESS"
    show ?thesis
      by (rule exI [of _ "unat (num_samples po)"]) (simp add: pos run_success [OF r ok])
  next
    assume "\<exists>k s. fst (main env parsed) = Terminate (CollaboratorFailed k s)"
    then obtain k s where bad: "fst (main env parsed) = Terminate (CollaboratorFailed k s)" by blast
    from run_failure [OF r bad] show ?thesis
      by (intro exI [of _ "Suc k"]) auto
  qed
qed

subsection \<open>The first sample\<close>

lemma reader_cam:
  "ReadPelvisVolProjAndGtFromH5File files p sid k = Inr d \<Longrightarrow>
     extrins_inv (pd_cam d) = xf_inverse (extrins (pd_cam d))"
  by (auto simp add: ReadPelvisVolProjAndGtFromH5File_def cam_setup_def split: option.splits)

lemma composite_of_Identity:
  assumes "extrins_inv (pd_cam d) = xf_inverse (extrins (pd_cam d))"
    and "invertible (extrins (pd_cam d))"
  shows "cam_extrins_to_vol d Identity = gt_cam_extrins_to_pelvis_vol d"
proof -
  let ?E = "extrins (pd_cam d)" and ?G = "gt_cam_extrins_to_pelvis_vol d"
  let ?F = "cam_proj_frame_shift_from_center_of_rot d" and ?T = "cam_proj_frame_shift_to_center_of_rot d"
  have ft: "xf_mul ?F ?T = Identity"
    by (simp add: cam_proj_frame_shift_from_center_of_rot_def cam_proj_frame_shift_to_center_of_rot_def
          shift_from_to)
  have "cam_extrins_to_vol d Identity = xf_mul ?G (xf_mul (xf_inverse ?E) (xf_mul (xf_mul ?F ?T) ?E))"
    by (simp add: cam_extrins_to_vol_def center_of_rot_in_proj_frame_to_vol_def
          cam_extrins_to_center_of_rot_in_proj_frame_def assms(1) xf_mul_Identity_right xf_mul_assoc)
  also have "\<dots> = ?G"
    by (simp add: ft xf_mul_Identity_left xf_mul_Identity_right xf_inverse_left [OF assms(2)])
  finally show ?thesis .
qed

lemma offset_of_entry_0: "offset_of (loop_entry_state env po) 0 = Identity"
  by (simp add: offset_of_def entry_fields se3_zero)

lemma fmt_03d_0: "fmt_03d 0 = ''000''"
  by code_simp

lemma fmt_03d_small: "fmt_03d 1 = ''001''" "fmt_03d 2 = ''002''" "fmt_03d 12 = ''012''" "fmt_03d 1234 = ''1234''"
  by code_simp+

lemma demo_reader:
  "ReadPelvisVolProjAndGtFromH5File (h5_files (demo_env status thr)) ''ipcai.h5'' ''17-1882'' 0
     = Inr demo_data"
  by (simp add: ReadPelvisVolProjAndGtFromH5File_def demo_env_def demo_h5_def fmt_03d_0
        demo_data_def tool_data_def xf_mul_Identity_right)

lemma demo_reaches:
  "n \<noteq> 0 \<Longrightarrow> status \<noteq> NotADirectory \<Longrightarrow>
     reaches_sampling (demo_env status thr) (Parsed (demo_opts n)) (demo_opts n) demo_data"
  using demo_reader [of status thr]
  by (simp add: reaches_sampling_def demo_opts_def word_less_1) (simp add: demo_env_def)

lemma invertible_Identity: "invertible Identity"
  by (simp add: invertible_def Identity_def mat_id_def)

lemma demo_cam: "extrins (pd_cam demo_data) = Identity"
  by (simp add: demo_data_def tool_data_def cam_setup_def)

text \<open>
  C3: in every run that reaches the sampling (whatever the seed, and every sample count
  that passes the guard), the tangent vector of sample 0 is the zero vector, and for an
  invertible extrinsic transform the composite pose of sample 0 is the ground-truth pose
  itself: in exact arithmetic the two are equal, so they agree within every tolerance.
\<close>

theorem first_sample_is_ground_truth:
  assumes "reaches_sampling env parsed po d"
    and "invertible (extrins (pd_cam d))"
  shows "pose_param_samples (snd (main env parsed)) ! 0 = replicate 6 0
       \<and> sampled_cam_to_pelvis_vol (snd (main env parsed)) ! 0 = gt_cam_extrins_to_pelvis_vol d"
proof -
  have inv: "extrins_inv (pd_cam d) = xf_inverse (extrins (pd_cam d))"
    using assms(1) by (auto simp add: reaches_sampling_def intro: reader_cam)
  from run_begun [OF assms(1)] obtain m where m: "0 < m"
    and poses: "sampled_cam_to_pelvis_vol (snd (main env parsed)) =
           map (\<lambda>j. cam_extrins_to_vol d (offset_of (loop_entry_state env po) j)) [0..<m]"
    by blast
  have "sampled_cam_to_pelvis_vol (snd (main env parsed)) ! 0 = cam_extrins_to_vol d Identity"
    using m by (simp add: poses offset_of_entry_0 del: upt_Suc)
  then show ?thesis
    by (simp add: run_keeps [OF assms(1)] composite_of_Identity [OF inv assms(2)])
qed

theorem first_sample_is_ground_truth_witness:
  "reaches_sampling (demo_env Missing (\<lambda>i s. False)) (Parsed (demo_opts 3)) (demo_opts 3) demo_data
   \<and> invertible (extrins (pd_cam demo_data))
   \<and> pose_param_samples (snd (main (demo_env Missing (\<lambda>i s. False)) (Parsed (demo_opts 3)))) ! 0
       = [0, 0, 0, 0, 0, 0]
   \<and> sampled_cam_to_pelvis_vol (snd (main (demo_env Missing (\<lambda>i s. False)) (Parsed (demo_opts 3)))) ! 0
       = FrameTransform (Mat3x3 (Pt3 1 0 0) (Pt3 0 1 0) (Pt3 0 0 1)) (Pt3 (- 0.5) (- 0.5) (- 0.5))"
proof -
  have r: "reaches_sampling (demo_env Missing (\<lambda>i s. False)) (Parsed (demo_opts 3)) (demo_opts 3) demo_data"
    by (rule demo_reaches) simp_all
  have i: "invertible (extrins (pd_cam demo_data))"
    by (simp add: demo_cam invertible_Identity)
  from first_sample_is_ground_truth [OF r i] r i show ?thesis
    by (simp add: demo_data_def tool_data_def gt_corr_def set_translation_def Identity_def mat_id_def
          numeral_eq_Suc)
qed

subsection \<open>The anchor as a fixed point\<close>

lemma determinant_mul: "determinant (mat_mul A B) = determinant A * determinant B"
  by (cases A rule: Mat3x3_cases; cases B rule: Mat3x3_cases) (simp add: mat_mul_def algebra_simps)

lemma invertible_mul: "invertible A \<Longrightarrow> invertible B \<Longrightarrow> invertible (xf_mul A B)"
  by (simp add: invertible_def xf_mul_def determinant_mul)

lemma invertible_shift: "invertible (set_translation Identity v)"
  by (simp add: invertible_def set_translation_def Identity_def mat_id_def)

lemma invertible_inverse: "invertible A \<Longrightarrow> invertible (xf_inverse A)"
proof -
  assume a: "invertible A"
  have "determinant (mat_mul (mat_inverse (lin A)) (lin A)) = 1"
    using a by (simp add: invertible_def mat_inverse_left mat_id_def)
  then have "determinant (mat_inverse (lin A)) * determinant (lin A) = 1"
    by (simp add: determinant_mul)
  then have "determinant (mat_inverse (lin A)) \<noteq> 0" by auto
  then show ?thesis by (simp add: invertible_def xf_inverse_def)
qed

lemma invertible_composite:
  assumes "invertible extrinsic" and "invertible ground_truth" and "invertible T"
  shows "invertible (cam_extrins_to_vol (tool_data A extrinsic ground_truth) T)"
  by (simp add: cam_extrins_to_vol_def center_of_rot_in_proj_frame_to_vol_def
        cam_extrins_to_center_of_rot_in_proj_frame_def cam_proj_frame_shift_from_center_of_rot_def
        cam_proj_frame_shift_to_center_of_rot_def tool_data_def cam_setup_def
        invertible_mul invertible_shift invertible_inverse assms)

lemma sqrt_4: "sqrt 4 = 2"
  by (rule real_sqrt_unique) simp_all

text \<open>
  C2, as the spec states the law: the norm of \<open>Composite(T)\<inverse> \<cdot> GroundTruth \<cdot> A - A\<close> is
  below 1e-6 for every offset \<open>T\<close> without translation. It fails for the identity as
  extrinsic transform, the ground truth that translates by (1,0,0), the anchor at the
  origin and the half turn about the z axis: the norm is 2.
\<close>

theorem anchor_law_as_stated_counterexample:
  "translation (FrameTransform (Mat3x3 (Pt3 (- 1) 0 0) (Pt3 0 (- 1) 0) (Pt3 0 0 1)) (Pt3 0 0 0)) = pt_zero
   \<and> \<not> norm3 (pt_sub
         (xf_pt (xf_inverse (cam_extrins_to_vol
                    (tool_data (Pt3 0 0 0) Identity (FrameTransform mat_id (Pt3 1 0 0)))
                    (FrameTransform (Mat3x3 (Pt3 (- 1) 0 0) (Pt3 0 (- 1) 0) (Pt3 0 0 1)) (Pt3 0 0 0))))
                (xf_pt (FrameTransform mat_id (Pt3 1 0 0)) (Pt3 0 0 0)))
         (Pt3 0 0 0)) < 1 / 1000000"
  by (simp add: cam_extrins_to_vol_def center_of_rot_in_proj_frame_to_vol_def
        cam_extrins_to_center_of_rot_in_proj_frame_def cam_proj_frame_shift_from_center_of_rot_def
        cam_proj_frame_shift_to_center_of_rot_def center_of_rot_wrt_cam_proj_frame_def
        tool_data_def cam_setup_def xf_mul_def xf_pt_def xf_inverse_def mat_inverse_def mat_mul_def
        set_translation_def Identity_def mat_id_def pt_zero_def norm3_def sqrt_4)

text \<open>
  C2, amended: for invertible extrinsic and ground-truth transforms and every offset \<open>T\<close>
  without translation, the composite pose maps the anchor's position in the camera frame,
  \<open>GroundTruth\<inverse> \<cdot> A\<close>, back to the anchor: \<open>Composite(T) \<cdot> GroundTruth\<inverse> \<cdot> A = A\<close>, so
  the norm of the difference is 0, below 1e-6. When \<open>T\<close> is invertible, as a rotation
  is, this is the same as \<open>GroundTruth \<cdot> Composite(T)\<inverse> \<cdot> A = A\<close>.
\<close>

theorem anchor_fixed_point:
  assumes "invertible extrinsic" and "invertible ground_truth" and "translation T = pt_zero"
  shows "xf_pt (cam_extrins_to_vol (tool_data A extrinsic ground_truth) T)
               (xf_pt (xf_inverse ground_truth) A) = A
       \<and> norm3 (pt_sub (xf_pt (cam_extrins_to_vol (tool_data A extrinsic ground_truth) T)
                               (xf_pt (xf_inverse ground_truth) A)) A) < 1 / 1000000
       \<and> (invertible T \<longrightarrow>
            xf_pt ground_truth
              (xf_pt (xf_inverse (cam_extrins_to_vol (tool_data A extrinsic ground_truth) T)) A) = A)"
proof -
  let ?d = "tool_data A extrinsic ground_truth"
  let ?c = "center_of_rot_wrt_cam_proj_frame ?d"
  let ?p = "xf_pt (xf_inverse ground_truth) A"
  have e: "extrins (pd_cam ?d) = extrinsic" "extrins_inv (pd_cam ?d) = xf_inverse extrinsic"
    "gt_cam_extrins_to_pelvis_vol ?d = ground_truth" "ct_vol_center ?d = A"
    by (simp_all add: tool_data_def cam_setup_def)
  have c: "?c = xf_pt extrinsic ?p"
    by (simp add: center_of_rot_wrt_cam_proj_frame_def e xf_pt_mul)
  have pre: "xf_pt (cam_extrins_to_center_of_rot_in_proj_frame ?d) ?p = pt_zero"
    by (simp add: cam_extrins_to_center_of_rot_in_proj_frame_def cam_proj_frame_shift_to_center_of_rot_def
          xf_pt_mul shift_pt e c pt_add_neg)
  have rot: "xf_pt T pt_zero = pt_zero"
    by (simp add: xf_pt_def mat_vec_zero assms(3) pt_add_zero_left)
  have post: "xf_pt (center_of_rot_in_proj_frame_to_vol ?d) pt_zero = A"
    by (simp add: center_of_rot_in_proj_frame_to_vol_def cam_proj_frame_shift_from_center_of_rot_def
          xf_pt_mul shift_pt pt_add_zero_left e c xf_inverse_pt_left [OF assms(1)]
          xf_inverse_pt_right [OF assms(2)])
  have fixed: "xf_pt (cam_extrins_to_vol ?d T) ?p = A"
    by (simp add: cam_extrins_to_vol_def xf_pt_mul pre rot post)
  have inv_form: "xf_pt ground_truth (xf_pt (xf_inverse (cam_extrins_to_vol ?d T)) A) = A" if t: "invertible T"
  proof -
    have c: "invertible (cam_extrins_to_vol ?d T)"
      using assms(1,2) t by (rule invertible_composite)
    have "xf_pt (xf_inverse (cam_extrins_to_vol ?d T)) A
            = xf_pt (xf_inverse (cam_extrins_to_vol ?d T)) (xf_pt (cam_extrins_to_vol ?d T) ?p)"
      by (simp only: fixed)
    also have "\<dots> = ?p"
      using c by (rule xf_inverse_pt_left)
    finally show ?thesis
      by (simp only: xf_inverse_pt_right [OF assms(2)])
  qed
  show ?thesis
    using inv_form by (simp add: fixed pt_sub_self norm3_zero)
qed

theorem anchor_fixed_point_witness:
  "invertible Identity \<and> invertible (FrameTransform mat_id (Pt3 1 0 0))
   \<and> translation (FrameTransform (Mat3x3 (Pt3 (- 1) 0 0) (Pt3 0 (- 1) 0) (Pt3 0 0 1)) (Pt3 0 0 0)) = pt_zero
   \<and> xf_pt (cam_extrins_to_vol (tool_data (Pt3 0 0 0) Identity (FrameTransform mat_id (Pt3 1 0 0)))
               (FrameTransform (Mat3x3 (Pt3 (- 1) 0 0) (Pt3 0 (- 1) 0) (Pt3 0 0 1)) (Pt3 0 0 0)))
            (xf_pt (xf_inverse (FrameTransform mat_id (Pt3 1 0 0))) (Pt3 0 0 0)) = Pt3 0 0 0
   \<and> invertible (FrameTransform (Mat3x3 (Pt3 (- 1) 0 0) (Pt3 0 (- 1) 0) (Pt3 0 0 1)) (Pt3 0 0 0))
   \<and> xf_pt (FrameTransform mat_id (Pt3 1 0 0))
         (xf_pt (xf_inverse (cam_extrins_to_vol
                    (tool_data (Pt3 0 0 0) Identity (FrameTransform mat_id (Pt3 1 0 0)))
                    (FrameTransform (Mat3x3 (Pt3 (- 1) 0 0) (Pt3 0 (- 1) 0) (Pt3 0 0 1)) (Pt3 0 0 0))))
                (Pt3 0 0 0)) = Pt3 0 0 0"
proof -
  have a: "invertible Identity" by (rule invertible_Identity)
  have b: "invertible (FrameTransform mat_id (Pt3 1 0 0))"
    by (simp add: invertible_def mat_id_def)
  have c: "translation (FrameTransform (Mat3x3 (Pt3 (- 1) 0 0) (Pt3 0 (- 1) 0) (Pt3 0 0 1)) (Pt3 0 0 0)) = pt_zero"
    by (simp add: pt_zero_def)
  have t: "invertible (FrameTransform (Mat3x3 (Pt3 (- 1) 0 0) (Pt3 0 (- 1) 0) (Pt3 0 0 1)) (Pt3 0 0 0))"
    by (simp add: invertible_def)
  from anchor_fixed_point [OF a b c, of "Pt3 0 0 0"] a b c t show ?thesis by simp
qed

subsection \<open>The construction of the sampler\<close>

lemma pi_neq_180: "pi / 180 \<noteq> (1::real)"
  using pi_less_4 by simp

text \<open>
  C5, as stated: the constructor converts the three rotation standard deviations from
  degrees to radians. Given 1, 1, 1 (degrees) and 1, 1, 5 it stores 1, 1, 1, 1, 1, 5.
\<close>

theorem constructor_converts_counterexample:
  "std_devs (dist_ptr (PoseParamSamplerIndepNormalDims_ctor 1 1 1 1 1 5)) = [1, 1, 1, 1, 1, 5]
   \<and> std_devs (dist_ptr (PoseParamSamplerIndepNormalDims_ctor 1 1 1 1 1 5))
       \<noteq> [1 * kDEG2RAD, 1 * kDEG2RAD, 1 * kDEG2RAD, 1, 1, 5]"
  using pi_neq_180 by (simp add: PoseParamSamplerIndepNormalDims_ctor_def kDEG2RAD_def)

text \<open>
  C5, amended: the constructor stores its six arguments unchanged as the standard
  deviations of a distribution with zero mean and no covariance; the conversion from
  degrees to radians is made by the caller: \<^verbatim>\<open>main\<close> passes one degree in radians for
  each rotation and 1, 1, 5 millimetres for the translations.
\<close>

theorem sampler_construction:
  "mean (dist_ptr (PoseParamSamplerIndepNormalDims_ctor rx ry rz tx ty tz)) = [0, 0, 0, 0, 0, 0]
   \<and> std_devs (dist_ptr (PoseParamSamplerIndepNormalDims_ctor rx ry rz tx ty tz)) = [rx, ry, rz, tx, ty, tz]
   \<and> mean (dist_ptr param_sampler) = [0, 0, 0, 0, 0, 0]
   \<and> std_devs (dist_ptr param_sampler) = [1 * (pi / 180), 1 * (pi / 180), 1 * (pi / 180), 1, 1, 5]"
  by (simp add: PoseParamSamplerIndepNormalDims_ctor_def param_sampler_def kDEG2RAD_def numeral_eq_Suc)

subsection \<open>The guard on the sample count\<close>








subsection \<open>The events of a run\<close>

lemma loop_body_fst:
  "fst (loop_body env dst d i st) =
     (if throws env i CreateEdges then Some (CollaboratorFailed i CreateEdges)
      else if throws env i SaveRawDRR then Some (CollaboratorFailed i SaveRawDRR)
      else if throws env i SaveDRRRemap then Some (CollaboratorFailed i SaveDRRRemap)
      else if throws env i SaveEdges then Some (CollaboratorFailed i SaveEdges)
      else if throws env i SaveEdgesOverlay then Some (CollaboratorFailed i SaveEdgesOverlay)
      else None)"
  by (simp add: loop_body_def sample_calls_def Let_def)

lemma sample_loop_no_throw:
  "(\<forall>j s. \<not> throws env j s) \<Longrightarrow> fst (sample_loop env dst d n i st) = None"
proof (induction env dst d n i st rule: sample_loop.induct)
  case (1 env dst d n i st)
  have b: "fst (loop_body env dst d i st) = None"
    using "1.prems" by (simp add: loop_body_fst)
  show ?case
  proof (cases "i < n")
    case True
    then show ?thesis
      using "1.IH" [OF True refl b "1.prems"] by (simp add: sample_loop_step [OF True b])
  next
    case False
    then show ?thesis by (simp add: sample_loop_done)
  qed
qed

lemma run_no_throw:
  assumes "reaches_sampling env parsed po d" and "\<forall>j s. \<not> throws env j s"
  shows "fst (main env parsed) = Return kEXIT_VAL_SUCCESS"
  by (simp add: main_reaches [OF assms(1)] sample_loop_no_throw [OF assms(2)])

lemma call_events_filter:
  "filter is_draw (map snd (sample_calls dst j pose)) = []"
  "filter is_table_write (map snd (sample_calls dst j pose)) = []"
  by (simp_all add: sample_calls_def Let_def)

lemma loop_events_filter:
  "filter is_draw (concat (map (\<lambda>j. map snd (sample_calls dst j (f j))) js)) = []"
  "filter is_table_write (concat (map (\<lambda>j. map snd (sample_calls dst j (f j))) js)) = []"
  by (induction js) (simp_all add: call_events_filter)

lemma filter_takeWhile_empty:
  "filter P (map f xs) = [] \<Longrightarrow> filter P (map f (takeWhile Q xs)) = []"
  by (auto simp add: filter_empty_conv dest: set_takeWhileD)

lemma step_events_filter:
  "filter is_draw (step_events env dst d st k) = []"
  "filter is_table_write (step_events env dst d st k) = []"
  unfolding step_events_def by (rule filter_takeWhile_empty, rule call_events_filter)+

lemma entry_trace:
  "trace (loop_entry_state env po) =
     (if dst_dir env = Missing then [MakeDirRecursive (dst_dir_path po)] else [])
       @ [DrawSamples (unat (num_samples po - 1))]"
  by (simp add: loop_entry_state_def init_state_def)

lemma table_writes_filter:
  "filter is_draw (table_writes dst st) = []"
  "filter is_table_write (table_writes dst st) = table_writes dst st"
  by (simp_all add: table_writes_def)

lemma run_trace:
  assumes r: "reaches_sampling env parsed po d"
  shows "\<exists>evs. trace (snd (main env parsed)) =
            trace (loop_entry_state env po) @ evs
              @ (if fst (main env parsed) = Return kEXIT_VAL_SUCCESS
                 then table_writes (dst_dir_path po) (snd (main env parsed)) else [])
          \<and> filter is_draw evs = [] \<and> filter is_table_write evs = []"
proof -
  from run_outcome [OF r] show ?thesis
  proof
    assume ok: "fst (main env parsed) = Return kEXIT_VAL_SUCCESS"
    let ?evs = "concat (map (\<lambda>j. map snd (sample_calls (dst_dir_path po) j
                        (cam_extrins_to_vol d (offset_of (loop_entry_state env po) j)))) [0..<unat (num_samples po)])"
    have "filter is_draw ?evs = []" "filter is_table_write ?evs = []"
      by (rule loop_events_filter)+
    then show ?thesis
      using run_success(6) [OF r ok] ok by (intro exI [of _ ?evs]) simp
  next
    assume "\<exists>k s. fst (main env parsed) = Terminate (CollaboratorFailed k s)"
    then obtain k s where bad: "fst (main env parsed) = Terminate (CollaboratorFailed k s)" by blast
    from run_failure [OF r bad] obtain k' where
      tr: "trace (snd (main env parsed)) =
           trace (loop_entry_state env po)
           @ concat (map (\<lambda>j. map snd (sample_calls (dst_dir_path po) j
                        (cam_extrins_to_vol d (offset_of (loop_entry_state env po) j)))) [0..<k'])
           @ step_events env (dst_dir_path po) d (loop_entry_state env po) k'"
      by blast
    let ?a = "concat (map (\<lambda>j. map snd (sample_calls (dst_dir_path po) j
                        (cam_extrins_to_vol d (offset_of (loop_entry_state env po) j)))) [0..<k'])"
    let ?b = "step_events env (dst_dir_path po) d (loop_entry_state env po) k'"
    have a: "filter is_draw ?a = []" "filter is_table_write ?a = []"
      by (rule loop_events_filter)+
    have b: "filter is_draw ?b = []" "filter is_table_write ?b = []"
      by (rule step_events_filter)+
    show ?thesis
      using tr bad a b by (intro exI [of _ "?a @ ?b"]) simp
  qed
qed

lemma unat_pred: "\<not> (n::64 word) < 1 \<Longrightarrow> unat (n - 1) = unat n - 1"
  by (simp add: word_less_1 unat_minus_one)

lemma run_draw_events:
  assumes "reaches_sampling env parsed po d"
  shows "filter is_draw (trace (snd (main env parsed))) = [DrawSamples (unat (num_samples po) - 1)]"
    and "filter is_render (takeWhile (\<lambda>e. \<not> is_draw e) (trace (snd (main env parsed)))) = []"
proof -
  have n: "\<not> num_samples po < 1" using assms by (simp add: reaches_sampling_def)
  have k: "unat (num_samples po - 1) = unat (num_samples po) - 1" using n by (rule unat_pred)
  from run_trace [OF assms] obtain evs where
    tr0: "trace (snd (main env parsed)) =
            trace (loop_entry_state env po) @ evs
              @ (if fst (main env parsed) = Return kEXIT_VAL_SUCCESS
                 then table_writes (dst_dir_path po) (snd (main env parsed)) else [])"
    and evs: "filter is_draw evs = []"
    by blast
  define tl where "tl = (if fst (main env parsed) = Return kEXIT_VAL_SUCCESS
                 then table_writes (dst_dir_path po) (snd (main env parsed)) else [])"
  have tl: "filter is_draw tl = []"
    by (simp add: tl_def table_writes_filter)
  have tr: "trace (snd (main env parsed)) = trace (loop_entry_state env po) @ evs @ tl"
    using tr0 by (simp add: tl_def)
  show "filter is_draw (trace (snd (main env parsed))) = [DrawSamples (unat (num_samples po) - 1)]"
    by (simp add: tr evs tl entry_trace k)
  show "filter is_render (takeWhile (\<lambda>e. \<not> is_draw e) (trace (snd (main env parsed)))) = []"
    by (simp add: tr entry_trace)
qed

subsection \<open>The concrete run\<close>

lemma demo_seeded: "seeded_engine (demo_env status thr) (demo_opts n) = \<lparr> seed = 42, consumed = 0 \<rparr>"
  by (simp add: seeded_engine_def demo_opts_def)

lemma draw_dims_6:
  "draw_dims nv [(m0, s0), (m1, s1), (m2, s2), (m3, s3), (m4, s4), (m5, s5)] \<lparr> seed = s, consumed = c \<rparr> =
     ([m0 + s0 * nv s c, m1 + s1 * nv s (c + 1), m2 + s2 * nv s (c + 2),
       m3 + s3 * nv s (c + 3), m4 + s4 * nv s (c + 4), m5 + s5 * nv s (c + 5)],
      \<lparr> seed = s, consumed = c + 6 \<rparr>)"
  by (simp add: numeral_eq_Suc)

lemma param_sampler_zip:
  "zip (mean (dist_ptr param_sampler)) (std_devs (dist_ptr param_sampler)) =
     [(0, 1 * kDEG2RAD), (0, 1 * kDEG2RAD), (0, 1 * kDEG2RAD), (0, 1), (0, 1), (0, 5)]"
  by (simp add: param_sampler_def PoseParamSamplerIndepNormalDims_ctor_def numeral_eq_Suc)

lemma demo_variates:
  "normal_variate (demo_env status thr) s (6 * k) = 0"
  "normal_variate (demo_env status thr) s (6 * k + 1) = 0"
  "normal_variate (demo_env status thr) s (6 * k + 2) = 0"
  "normal_variate (demo_env status thr) s (6 * k + 3) = 1"
  "normal_variate (demo_env status thr) s (6 * k + 4) = 1"
  "normal_variate (demo_env status thr) s (6 * k + 5) = 1"
  by (simp_all add: demo_env_def) presburger

lemma demo_column:
  "draw_dims (normal_variate (demo_env status thr))
     (zip (mean (dist_ptr param_sampler)) (std_devs (dist_ptr param_sampler)))
     \<lparr> seed = s, consumed = 6 * k \<rparr>
   = ([0, 0, 0, 1, 1, 5], \<lparr> seed = s, consumed = 6 * Suc k \<rparr>)"
  by (simp only: param_sampler_zip draw_dims_6 demo_variates) simp

lemma demo_columns:
  "draw_samples (normal_variate (demo_env status thr)) (dist_ptr param_sampler) n \<lparr> seed = s, consumed = 6 * k \<rparr>
   = (replicate n [0, 0, 0, 1, 1, 5], \<lparr> seed = s, consumed = 6 * (k + n) \<rparr>)"
proof (induction n arbitrary: k)
  case 0
  show ?case by simp
next
  case (Suc n)
  show ?case
    using Suc.IH [of "Suc k"] by (simp only: draw_samples.simps demo_column) simp
qed

lemma demo_drawn:
  "drawn_params (demo_env status thr) (demo_opts n) =
     (replicate (unat (n - 1)) [0, 0, 0, 1, 1, 5], \<lparr> seed = 42, consumed = 6 * unat (n - 1) \<rparr>)"
  using demo_columns [of status thr "unat (n - 1)" 42 0]
  by (simp add: drawn_params_def SamplePoseParams_def demo_seeded)
     (simp add: demo_opts_def)

lemma se3_translation: "se3 [0, 0, 0, x, y, z] = FrameTransform mat_id (Pt3 x y z)"
  by (simp add: se3_def norm3_def Let_def mat_id_def mat_mul_def)

lemma replicate_2: "replicate 2 x = [x, x]"
  by (simp add: numeral_2_eq_2)

lemma demo_main_state:
  assumes "n \<noteq> 0" and "status \<noteq> NotADirectory"
  shows "pose_param_samples (snd (main (demo_env status thr) (Parsed (demo_opts n)))) =
           [0, 0, 0, 0, 0, 0] # replicate (unat (n - 1)) [0, 0, 0, 1, 1, 5]"
    and "rng_eng (snd (main (demo_env status thr) (Parsed (demo_opts n)))) =
           \<lparr> seed = 42, consumed = 6 * unat (n - 1) \<rparr>"
  by (simp_all add: run_keeps [OF demo_reaches [OF assms]] demo_drawn numeral_eq_Suc)

lemma unat_pos: "\<not> (n::64 word) < 1 \<Longrightarrow> 0 < unat n"
  by (simp add: word_less_1 unat_gt_0)

subsection \<open>The order of drawing and rendering\<close>

text \<open>
  C8: in every run that reaches the sampling, the matrix of tangent vectors is a zero
  column followed by the columns of the single batch drawn from the seeded engine; the
  engine at the end of the run is the engine right after that batch, having produced six
  variates per drawn column; the trace holds exactly one drawing event, and no rendering
  event precedes it. The random stream is thus not touched by the loop over the samples.
\<close>

theorem tangent_vectors_fixed_before_rendering:
  assumes "reaches_sampling env parsed po d"
  shows "pose_param_samples (snd (main env parsed)) =
           replicate 6 0 # fst (SamplePoseParams (normal_variate env) param_sampler
                                  (unat (num_samples po) - 1) (seeded_engine env po))
       \<and> length (pose_param_samples (snd (main env parsed))) = unat (num_samples po)
       \<and> rng_eng (snd (main env parsed)) =
           snd (SamplePoseParams (normal_variate env) param_sampler
                  (unat (num_samples po) - 1) (seeded_engine env po))
       \<and> consumed (rng_eng (snd (main env parsed))) = 6 * (unat (num_samples po) - 1)
       \<and> filter is_draw (trace (snd (main env parsed))) = [DrawSamples (unat (num_samples po) - 1)]
       \<and> filter is_render (takeWhile (\<lambda>e. \<not> is_draw e) (trace (snd (main env parsed)))) = []"
proof -
  have n: "\<not> num_samples po < 1" using assms by (simp add: reaches_sampling_def)
  have k: "unat (num_samples po - 1) = unat (num_samples po) - 1" using n by (rule unat_pred)
  have pos: "0 < unat (num_samples po)" using n by (rule unat_pos)
  show ?thesis
    using drawn_params_facts [of env po] pos
    by (simp add: run_keeps [OF assms] run_draw_events [OF assms] k) (simp add: drawn_params_def k)
qed

theorem tangent_vectors_fixed_before_rendering_witness:
  "reaches_sampling (demo_env Missing (\<lambda>i s. False)) (Parsed (demo_opts 3)) (demo_opts 3) demo_data
   \<and> pose_param_samples (snd (main (demo_env Missing (\<lambda>i s. False)) (Parsed (demo_opts 3))))
       = [[0, 0, 0, 0, 0, 0], [0, 0, 0, 1, 1, 5], [0, 0, 0, 1, 1, 5]]
   \<and> consumed (rng_eng (snd (main (demo_env Missing (\<lambda>i s. False)) (Parsed (demo_opts 3))))) = 12
   \<and> filter is_draw (trace (snd (main (demo_env Missing (\<lambda>i s. False)) (Parsed (demo_opts 3)))))
       = [DrawSamples 2]"
proof -
  have r: "reaches_sampling (demo_env Missing (\<lambda>i s. False)) (Parsed (demo_opts 3)) (demo_opts 3) demo_data"
    by (rule demo_reaches) simp_all
  have n: "num_samples (demo_opts 3) = 3" by (simp add: demo_opts_def)
  have u: "unat ((3::64 word) - 1) = 2" by simp
  have p: "pose_param_samples (snd (main (demo_env Missing (\<lambda>i s. False)) (Parsed (demo_opts 3))))
       = [[0, 0, 0, 0, 0, 0], [0, 0, 0, 1, 1, 5], [0, 0, 0, 1, 1, 5]]"
  proof -
    have nz: "(3::64 word) \<noteq> 0" by simp
    have ok: "Missing \<noteq> NotADirectory" by simp
    show ?thesis
      by (simp only: demo_main_state(1) [OF nz ok] u replicate_2)
  qed
  note T = tangent_vectors_fixed_before_rendering [OF r]
  have un: "unat (num_samples (demo_opts 3)) - 1 = 2" by (simp add: n)
  have c: "consumed (rng_eng (snd (main (demo_env Missing (\<lambda>i s. False)) (Parsed (demo_opts 3))))) = 12"
    using T [THEN conjunct2, THEN conjunct2, THEN conjunct2, THEN conjunct1] by (simp only: un)
  have f: "filter is_draw (trace (snd (main (demo_env Missing (\<lambda>i s. False)) (Parsed (demo_opts 3)))))
       = [DrawSamples 2]"
    using T [THEN conjunct2, THEN conjunct2, THEN conjunct2, THEN conjunct2, THEN conjunct1]
    by (simp only: un)
  from r p c f show ?thesis by (intro conjI)
qed

subsection \<open>A single sample\<close>

lemma pose_params_csv_row_zero: "pose_params_csv_row (replicate 6 0 # cols) 0 = replicate 6 0"
  by (simp add: pose_params_csv_row_def numeral_eq_Suc upt_rec)

text \<open>
  C7: in a run that reaches the sampling with sample count 1, exactly one sample is
  processed: every list holds one entry, that of the zero tangent vector and the identity
  offset; the batch-sampling call is asked for 0 samples, returns none and leaves the
  engine as it was seeded, which is also the engine at the end of the run.
\<close>

theorem single_sample_run:
  assumes "reaches_sampling env parsed po d" and "num_samples po = 1"
  shows "pose_param_samples (snd (main env parsed)) = [replicate 6 0]
       \<and> pose_params_csv (snd (main env parsed)) = [replicate 6 0]
       \<and> sampled_cam_to_pelvis_vol (snd (main env parsed)) = [cam_extrins_to_vol d Identity]
       \<and> sampled_poses_csv (snd (main env parsed)) = [pose_csv_row Identity]
       \<and> sampled_decomp_offsets (snd (main env parsed)) = [decomp_offset_row (euler_xyz env) Identity]
       \<and> SamplePoseParams (normal_variate env) param_sampler (unat (num_samples po - 1)) (seeded_engine env po)
           = ([], seeded_engine env po)
       \<and> rng_eng (snd (main env parsed)) = seeded_engine env po
       \<and> filter is_draw (trace (snd (main env parsed))) = [DrawSamples 0]"
proof -
  have dp: "drawn_params env po = ([], seeded_engine env po)"
    by (simp add: drawn_params_def assms(2) SamplePoseParams_none)
  from run_begun [OF assms(1)] obtain m where m: "0 < m" "m \<le> unat (num_samples po)"
    and lists: "sampled_cam_to_pelvis_vol (snd (main env parsed)) =
           map (\<lambda>j. cam_extrins_to_vol d (offset_of (loop_entry_state env po) j)) [0..<m]"
      "sampled_decomp_offsets (snd (main env parsed)) =
           map (\<lambda>j. decomp_offset_row (euler_xyz env) (offset_of (loop_entry_state env po) j)) [0..<m]"
      "sampled_poses_csv (snd (main env parsed)) =
           map (\<lambda>j. pose_csv_row (offset_of (loop_entry_state env po) j)) [0..<m]"
      "pose_params_csv (snd (main env parsed)) =
           map (pose_params_csv_row (pose_param_samples (loop_entry_state env po))) [0..<m]"
    by blast
  have m1: "m = 1" using m by (simp add: assms(2))
  show ?thesis
    using run_draw_events(1) [OF assms(1)]
    by (simp add: lists m1 run_keeps [OF assms(1)] dp offset_of_entry_0 entry_fields
          pose_params_csv_row_zero assms(2))
       (simp add: SamplePoseParams_none)
qed

theorem single_sample_run_witness:
  "reaches_sampling (demo_env IsDirectory (\<lambda>i s. False)) (Parsed (demo_opts 1)) (demo_opts 1) demo_data
   \<and> num_samples (demo_opts 1) = 1
   \<and> pose_param_samples (snd (main (demo_env IsDirectory (\<lambda>i s. False)) (Parsed (demo_opts 1))))
       = [[0, 0, 0, 0, 0, 0]]
   \<and> sampled_poses_csv (snd (main (demo_env IsDirectory (\<lambda>i s. False)) (Parsed (demo_opts 1))))
       = [[1, 0, 0, 0, 0, 1, 0, 0, 0, 0, 1, 0, 0, 0, 0, 1]]
   \<and> rng_eng (snd (main (demo_env IsDirectory (\<lambda>i s. False)) (Parsed (demo_opts 1))))
       = \<lparr> seed = 42, consumed = 0 \<rparr>"
proof -
  have r: "reaches_sampling (demo_env IsDirectory (\<lambda>i s. False)) (Parsed (demo_opts 1)) (demo_opts 1) demo_data"
    by (rule demo_reaches) simp_all
  have n: "num_samples (demo_opts 1) = 1" by (simp add: demo_opts_def)
  have row: "pose_csv_row Identity = [1, 0, 0, 0, 0, 1, 0, 0, 0, 0, 1, 0, 0, 0, 0, 1]"
    by (simp add: pose_csv_row_def matrix_def pt_nth_def mat_row_def Identity_def mat_id_def
          pt_zero_def upt_rec numeral_eq_Suc)
  from single_sample_run [OF r n] r n show ?thesis
    by (simp add: row demo_seeded numeral_eq_Suc)
qed

subsection \<open>The table of offset magnitudes\<close>

lemma decomp_offset_row_eq:
  "decomp_offset_row euler T =
     [arccos ((mat_trace (lin T) - 1) / 2) * kRAD2DEG, norm3 (translation T),
      fst (euler (lin T)) * kRAD2DEG, fst (snd (euler (lin T))) * kRAD2DEG,
      snd (snd (euler (lin T))) * kRAD2DEG,
      pt_x (translation T), pt_y (translation T), pt_z (translation T)]"
  by (simp add: decomp_offset_row_def ComputeRotAngTransMag_def RigidXformToEulerXYZAndTrans_def
        case_prod_beta)

lemma concat_map_member: "j \<in> set js \<Longrightarrow> set (f j) \<subseteq> set (concat (map f js))"
  by auto

lemma run_tables_last:
  assumes r: "reaches_sampling env parsed po d"
    and s: "fst (main env parsed) = Return kEXIT_VAL_SUCCESS"
  shows "\<exists>before. trace (snd (main env parsed)) =
            before @ table_writes (dst_dir_path po) (snd (main env parsed))
          \<and> filter is_table_write before = []
          \<and> (\<forall>j < unat (num_samples po).
                set (map snd (sample_calls (dst_dir_path po) j
                       (cam_extrins_to_vol d (offset_of (loop_entry_state env po) j)))) \<subseteq> set before)"
proof -
  let ?loop = "concat (map (\<lambda>j. map snd (sample_calls (dst_dir_path po) j
                        (cam_extrins_to_vol d (offset_of (loop_entry_state env po) j)))) [0..<unat (num_samples po)])"
  let ?before = "trace (loop_entry_state env po) @ ?loop"
  have a: "trace (snd (main env parsed)) = ?before @ table_writes (dst_dir_path po) (snd (main env parsed))"
    using run_success(6) [OF r s] by simp
  have b: "filter is_table_write ?before = []"
    by (simp add: entry_trace loop_events_filter)
  have c: "\<forall>j < unat (num_samples po).
                set (map snd (sample_calls (dst_dir_path po) j
                       (cam_extrins_to_vol d (offset_of (loop_entry_state env po) j)))) \<subseteq> set ?before"
  proof (intro allI impI)
    fix j assume j: "j < unat (num_samples po)"
    have "set (map snd (sample_calls (dst_dir_path po) j
                       (cam_extrins_to_vol d (offset_of (loop_entry_state env po) j)))) \<subseteq> set ?loop"
      by (rule concat_map_member) (simp add: j)
    then show "set (map snd (sample_calls (dst_dir_path po) j
                       (cam_extrins_to_vol d (offset_of (loop_entry_state env po) j)))) \<subseteq> set ?before"
      by (simp only: set_append) blast
  qed
  from a b c show ?thesis by blast
qed

lemma run_offsets:
  assumes r: "reaches_sampling env parsed po d"
    and i: "i < length (sampled_decomp_offsets (snd (main env parsed)))"
  shows "sampled_decomp_offsets (snd (main env parsed)) ! i =
           decomp_offset_row (euler_xyz env) (se3 (pose_param_samples (snd (main env parsed)) ! i))"
proof -
  from run_begun [OF r] obtain m where
    rows: "sampled_decomp_offsets (snd (main env parsed)) =
           map (\<lambda>j. decomp_offset_row (euler_xyz env) (offset_of (loop_entry_state env po) j)) [0..<m]"
    by blast
  have im: "i < m" using i by (simp add: rows)
  have "offset_of (loop_entry_state env po) i = se3 (pose_param_samples (snd (main env parsed)) ! i)"
    by (simp add: offset_of_def entry_fields run_keeps [OF r])
  then show ?thesis using im by (simp add: rows)
qed

lemma demo_no_throw_ok:
  assumes "n \<noteq> 0" and "status \<noteq> NotADirectory"
  shows "fst (main (demo_env status (\<lambda>i s. False)) (Parsed (demo_opts n))) = Return kEXIT_VAL_SUCCESS"
  by (rule run_no_throw [OF demo_reaches [OF assms]]) (simp add: demo_env_def)

lemma demo_euler: "euler_xyz (demo_env status thr) R = (0, 0, 0)"
  by (simp add: demo_env_def)

lemma sqrt_27: "sqrt 27 = 3 * sqrt 3"
proof -
  have "sqrt 27 = sqrt (3\<^sup>2 * 3)" by simp
  also have "\<dots> = 3 * sqrt 3" by (simp only: real_sqrt_mult) simp
  finally show ?thesis .
qed

text \<open>
  C9: in every run that reaches the sampling, the row of the offset table of each sample
  that was begun has exactly 8 entries, all computed from the sample's offset transform
  (the exponential map of its tangent vector), not from the composite pose: the rotation
  angle of the rotation block in degrees, the Euclidean norm of the translation, the
  three Euler angles in degrees, and the three translation components as they are. When
  the run succeeds the table has one row per sample and is written to
  \<^verbatim>\<open>offset_amounts.csv\<close> under the eight headers.
\<close>

theorem offset_table_rows:
  assumes "reaches_sampling env parsed po d"
    and "i < length (sampled_decomp_offsets (snd (main env parsed)))"
  shows "sampled_decomp_offsets (snd (main env parsed)) ! i =
           [arccos ((mat_trace (lin (se3 (pose_param_samples (snd (main env parsed)) ! i))) - 1) / 2) * kRAD2DEG,
            norm3 (translation (se3 (pose_param_samples (snd (main env parsed)) ! i))),
            fst (euler_xyz env (lin (se3 (pose_param_samples (snd (main env parsed)) ! i)))) * kRAD2DEG,
            fst (snd (euler_xyz env (lin (se3 (pose_param_samples (snd (main env parsed)) ! i))))) * kRAD2DEG,
            snd (snd (euler_xyz env (lin (se3 (pose_param_samples (snd (main env parsed)) ! i))))) * kRAD2DEG,
            pt_x (translation (se3 (pose_param_samples (snd (main env parsed)) ! i))),
            pt_y (translation (se3 (pose_param_samples (snd (main env parsed)) ! i))),
            pt_z (translation (se3 (pose_param_samples (snd (main env parsed)) ! i)))]
       \<and> length (sampled_decomp_offsets (snd (main env parsed)) ! i) = 8
       \<and> (fst (main env parsed) = Return kEXIT_VAL_SUCCESS \<longrightarrow>
            length (sampled_decomp_offsets (snd (main env parsed))) = unat (num_samples po)
          \<and> WriteCSVFile (Path_plus (dst_dir_path po) ''offset_amounts.csv'')
               (sampled_decomp_offsets (snd (main env parsed)))
               [''total rotation (deg)'', ''total trans. (mm)'',
                ''rotation X (deg)'', ''rotation Y (deg)'', ''rotation Z (deg)'',
                ''translation X (mm)'', ''translation Y (mm)'', ''translation Z (mm)'']
             \<in> set (trace (snd (main env parsed))))"
proof -
  have row: "sampled_decomp_offsets (snd (main env parsed)) ! i =
           decomp_offset_row (euler_xyz env) (se3 (pose_param_samples (snd (main env parsed)) ! i))"
    using assms by (rule run_offsets)
  have ok: "fst (main env parsed) = Return kEXIT_VAL_SUCCESS \<Longrightarrow>
            length (sampled_decomp_offsets (snd (main env parsed))) = unat (num_samples po)
          \<and> WriteCSVFile (Path_plus (dst_dir_path po) ''offset_amounts.csv'')
               (sampled_decomp_offsets (snd (main env parsed)))
               [''total rotation (deg)'', ''total trans. (mm)'',
                ''rotation X (deg)'', ''rotation Y (deg)'', ''rotation Z (deg)'',
                ''translation X (mm)'', ''translation Y (mm)'', ''translation Z (mm)'']
             \<in> set (trace (snd (main env parsed)))"
  proof -
    assume s: "fst (main env parsed) = Return kEXIT_VAL_SUCCESS"
    have len: "length (sampled_decomp_offsets (snd (main env parsed))) = unat (num_samples po)"
      by (simp add: run_success(3) [OF assms(1) s])
    have "WriteCSVFile (Path_plus (dst_dir_path po) ''offset_amounts.csv'')
               (sampled_decomp_offsets (snd (main env parsed)))
               [''total rotation (deg)'', ''total trans. (mm)'',
                ''rotation X (deg)'', ''rotation Y (deg)'', ''rotation Z (deg)'',
                ''translation X (mm)'', ''translation Y (mm)'', ''translation Z (mm)'']
             \<in> set (table_writes (dst_dir_path po) (snd (main env parsed)))"
      by (simp add: table_writes_def)
    moreover from run_tables_last [OF assms(1) s] obtain before where
      "trace (snd (main env parsed)) = before @ table_writes (dst_dir_path po) (snd (main env parsed))"
      by blast
    then have "set (table_writes (dst_dir_path po) (snd (main env parsed))) \<subseteq> set (trace (snd (main env parsed)))"
      by (metis set_append sup_ge2)
    ultimately show ?thesis using len by blast
  qed
  show ?thesis
    using ok by (simp add: row decomp_offset_row_eq)
qed

theorem offset_table_rows_witness:
  "reaches_sampling (demo_env Missing (\<lambda>i s. False)) (Parsed (demo_opts 2)) (demo_opts 2) demo_data
   \<and> 1 < length (sampled_decomp_offsets (snd (main (demo_env Missing (\<lambda>i s. False)) (Parsed (demo_opts 2)))))
   \<and> pose_param_samples (snd (main (demo_env Missing (\<lambda>i s. False)) (Parsed (demo_opts 2)))) ! 1
       = [0, 0, 0, 1, 1, 5]
   \<and> sampled_decomp_offsets (snd (main (demo_env Missing (\<lambda>i s. False)) (Parsed (demo_opts 2)))) ! 1
       = [0, sqrt 27, 0, 0, 0, 1, 1, 5]
   \<and> fst (main (demo_env Missing (\<lambda>i s. False)) (Parsed (demo_opts 2))) = Return 0
   \<and> length (sampled_decomp_offsets (snd (main (demo_env Missing (\<lambda>i s. False)) (Parsed (demo_opts 2))))) = 2
   \<and> WriteCSVFile ''out/offset_amounts.csv''
        (sampled_decomp_offsets (snd (main (demo_env Missing (\<lambda>i s. False)) (Parsed (demo_opts 2)))))
        [''total rotation (deg)'', ''total trans. (mm)'',
         ''rotation X (deg)'', ''rotation Y (deg)'', ''rotation Z (deg)'',
         ''translation X (mm)'', ''translation Y (mm)'', ''translation Z (mm)'']
       \<in> set (trace (snd (main (demo_env Missing (\<lambda>i s. False)) (Parsed (demo_opts 2)))))"
proof -
  let ?env = "demo_env Missing (\<lambda>i s. False)"
  have nz: "(2::64 word) \<noteq> 0" by simp
  have st: "Missing \<noteq> NotADirectory" by simp
  have r: "reaches_sampling ?env (Parsed (demo_opts 2)) (demo_opts 2) demo_data"
    using nz st by (rule demo_reaches)
  have ok: "fst (main ?env (Parsed (demo_opts 2))) = Return kEXIT_VAL_SUCCESS"
    using nz st by (rule demo_no_throw_ok)
  have n: "unat (num_samples (demo_opts 2)) = 2" by (simp add: demo_opts_def)
  have len: "length (sampled_decomp_offsets (snd (main ?env (Parsed (demo_opts 2))))) = 2"
    by (simp add: run_success(3) [OF r ok] n)
  have i: "1 < length (sampled_decomp_offsets (snd (main ?env (Parsed (demo_opts 2)))))"
    by (simp add: len)
  have u: "unat ((2::64 word) - 1) = 1" by simp
  have p: "pose_param_samples (snd (main ?env (Parsed (demo_opts 2)))) ! 1 = [0, 0, 0, 1, 1, 5]"
    by (simp add: demo_main_state(1) [OF nz st] u)
  have row: "sampled_decomp_offsets (snd (main ?env (Parsed (demo_opts 2)))) ! 1
       = [0, sqrt 27, 0, 0, 0, 1, 1, 5]"
    using offset_table_rows [OF r i, THEN conjunct1]
    by (simp add: p [unfolded One_nat_def] se3_translation demo_euler mat_id_def norm3_def)
  have ok0: "fst (main ?env (Parsed (demo_opts 2))) = Return 0"
    using ok by (simp add: kEXIT_VAL_SUCCESS_def)
  have path: "Path_plus (dst_dir_path (demo_opts 2)) ''offset_amounts.csv'' = ''out/offset_amounts.csv''"
    by (simp add: Path_plus_def demo_opts_def)
  note W = offset_table_rows [OF r i, THEN conjunct2, THEN conjunct2, rule_format, OF ok, THEN conjunct2]
  from r i p row ok0 len W [unfolded path] show ?thesis by (intro conjI)
qed

subsection \<open>Images in the loop, tables at the end\<close>

lemma artifacts_subset:
  "set (sample_artifacts dst i) \<subseteq> set (map snd (sample_calls dst i pose))"
  by (simp add: sample_artifacts_def sample_calls_def Let_def)

lemma table_writes_length: "length (table_writes dst st) = 3"
  by (simp add: table_writes_def)

lemma demo_fails_at_1:
  "fst (sample_loop (demo_env status (\<lambda>i s. i = 1 \<and> s = SaveEdges)) dst d 3 0 st)
     = Some (CollaboratorFailed 1 SaveEdges)"
  by (simp add: sample_loop_step sample_loop_fail loop_body_fst demo_env_def)

text \<open>
  C10: in every run that reaches the sampling, (a) if a collaborator throws at sample
  index \<open>k\<close>, the run has written no summary table, while the four image artifacts of
  every sample below \<open>k\<close> are written; (b) if the run succeeds, the table writes are
  exactly the three tables, each once, they are the last three events of the run, and the
  four image artifacts of all samples precede them; (c) there is no third outcome.
\<close>

theorem tables_written_after_all_samples:
  assumes "reaches_sampling env parsed po d"
  shows "(\<forall>k s. fst (main env parsed) = Terminate (CollaboratorFailed k s) \<longrightarrow>
            k < unat (num_samples po)
          \<and> filter is_table_write (trace (snd (main env parsed))) = []
          \<and> (\<forall>i<k. set (sample_artifacts (dst_dir_path po) i) \<subseteq> set (trace (snd (main env parsed)))))
       \<and> (fst (main env parsed) = Return kEXIT_VAL_SUCCESS \<longrightarrow>
            filter is_table_write (trace (snd (main env parsed)))
              = table_writes (dst_dir_path po) (snd (main env parsed))
          \<and> drop (length (trace (snd (main env parsed))) - 3) (trace (snd (main env parsed)))
              = table_writes (dst_dir_path po) (snd (main env parsed))
          \<and> (\<forall>i<unat (num_samples po).
                set (sample_artifacts (dst_dir_path po) i)
                  \<subseteq> set (take (length (trace (snd (main env parsed))) - 3) (trace (snd (main env parsed))))))
       \<and> (fst (main env parsed) = Return kEXIT_VAL_SUCCESS
            \<or> (\<exists>k s. fst (main env parsed) = Terminate (CollaboratorFailed k s)))"
proof (intro conjI allI impI)
  fix k s
  assume bad: "fst (main env parsed) = Terminate (CollaboratorFailed k s)"
  let ?full = "\<lambda>j. map snd (sample_calls (dst_dir_path po) j
                        (cam_extrins_to_vol d (offset_of (loop_entry_state env po) j)))"
  from run_failure [OF assms bad] have k: "k < unat (num_samples po)"
    and tr: "trace (snd (main env parsed)) =
           trace (loop_entry_state env po) @ concat (map ?full [0..<k])
           @ step_events env (dst_dir_path po) d (loop_entry_state env po) k"
    by auto
  show "k < unat (num_samples po)" by (rule k)
  show "filter is_table_write (trace (snd (main env parsed))) = []"
    by (simp add: tr entry_trace loop_events_filter step_events_filter)
  fix i assume i: "i < k"
  have "set (sample_artifacts (dst_dir_path po) i) \<subseteq> set (?full i)"
    by (rule artifacts_subset)
  also have "\<dots> \<subseteq> set (concat (map ?full [0..<k]))"
    by (rule concat_map_member) (simp add: i)
  also have "\<dots> \<subseteq> set (trace (snd (main env parsed)))"
    by (simp only: tr set_append) blast
  finally show "set (sample_artifacts (dst_dir_path po) i) \<subseteq> set (trace (snd (main env parsed)))" .
next
  assume ok: "fst (main env parsed) = Return kEXIT_VAL_SUCCESS"
  from run_tables_last [OF assms ok] obtain before where
    tr: "trace (snd (main env parsed)) = before @ table_writes (dst_dir_path po) (snd (main env parsed))"
    and nb: "filter is_table_write before = []"
    and all: "\<forall>j < unat (num_samples po).
                set (map snd (sample_calls (dst_dir_path po) j
                       (cam_extrins_to_vol d (offset_of (loop_entry_state env po) j)))) \<subseteq> set before"
    by blast
  have len: "length (trace (snd (main env parsed))) - 3 = length before"
    by (subst tr) (simp add: table_writes_length)
  show "filter is_table_write (trace (snd (main env parsed)))
              = table_writes (dst_dir_path po) (snd (main env parsed))"
    by (subst tr) (simp add: nb table_writes_filter)
  show "drop (length (trace (snd (main env parsed))) - 3) (trace (snd (main env parsed)))
              = table_writes (dst_dir_path po) (snd (main env parsed))"
    unfolding len by (subst tr) simp
  fix i assume i: "i < unat (num_samples po)"
  have tk: "take (length (trace (snd (main env parsed))) - 3) (trace (snd (main env parsed))) = before"
    unfolding len by (subst tr) simp
  show "set (sample_artifacts (dst_dir_path po) i)
                  \<subseteq> set (take (length (trace (snd (main env parsed))) - 3) (trace (snd (main env parsed))))"
    unfolding tk using artifacts_subset all i by blast
next
  show "fst (main env parsed) = Return kEXIT_VAL_SUCCESS
            \<or> (\<exists>k s. fst (main env parsed) = Terminate (CollaboratorFailed k s))"
    using assms by (rule run_outcome)
qed

theorem tables_written_after_all_samples_witness:
  "reaches_sampling (demo_env Missing (\<lambda>i s. i = 1 \<and> s = SaveEdges)) (Parsed (demo_opts 3)) (demo_opts 3) demo_data
   \<and> fst (main (demo_env Missing (\<lambda>i s. i = 1 \<and> s = SaveEdges)) (Parsed (demo_opts 3)))
       = Terminate (CollaboratorFailed 1 SaveEdges)
   \<and> filter is_table_write
        (trace (snd (main (demo_env Missing (\<lambda>i s. i = 1 \<and> s = SaveEdges)) (Parsed (demo_opts 3))))) = []
   \<and> set [WriteITKImageToDisk ''out/drr_raw_000.nii.gz'', imwrite ''out/drr_remap_000.png'',
           imwrite ''out/edges_000.png'', imwrite ''out/edges_overlay_000.png'']
       \<subseteq> set (trace (snd (main (demo_env Missing (\<lambda>i s. i = 1 \<and> s = SaveEdges)) (Parsed (demo_opts 3)))))
   \<and> reaches_sampling (demo_env Missing (\<lambda>i s. False)) (Parsed (demo_opts 2)) (demo_opts 2) demo_data
   \<and> fst (main (demo_env Missing (\<lambda>i s. False)) (Parsed (demo_opts 2))) = Return 0
   \<and> length (filter is_table_write
        (trace (snd (main (demo_env Missing (\<lambda>i s. False)) (Parsed (demo_opts 2)))))) = 3"
proof -
  let ?bad = "demo_env Missing (\<lambda>i s. i = 1 \<and> s = SaveEdges)"
  let ?good = "demo_env Missing (\<lambda>i s. False)"
  have st: "Missing \<noteq> NotADirectory" by simp
  have r3: "reaches_sampling ?bad (Parsed (demo_opts 3)) (demo_opts 3) demo_data"
    by (rule demo_reaches) simp_all
  have n3: "unat (num_samples (demo_opts 3)) = 3" "dst_dir_path (demo_opts 3) = ''out''"
    by (simp_all add: demo_opts_def)
  have bad: "fst (main ?bad (Parsed (demo_opts 3))) = Terminate (CollaboratorFailed 1 SaveEdges)"
  proof -
    have "fst (sample_loop ?bad (dst_dir_path (demo_opts 3)) demo_data (unat (num_samples (demo_opts 3))) 0
                 (loop_entry_state ?bad (demo_opts 3))) = Some (CollaboratorFailed 1 SaveEdges)"
      unfolding n3 by (rule demo_fails_at_1)
    then show ?thesis
      by (subst main_reaches [OF r3]) (simp only: option.case fst_conv)
  qed
  note B = tables_written_after_all_samples [OF r3, THEN conjunct1, rule_format, OF bad]
  have b1: "filter is_table_write (trace (snd (main ?bad (Parsed (demo_opts 3))))) = []"
    using B by blast
  have a0: "sample_artifacts ''out'' 0 =
      [WriteITKImageToDisk ''out/drr_raw_000.nii.gz'', imwrite ''out/drr_remap_000.png'',
       imwrite ''out/edges_000.png'', imwrite ''out/edges_overlay_000.png'']"
    by (simp add: sample_artifacts_def fmt_03d_0)
  have b2: "set (sample_artifacts ''out'' 0) \<subseteq> set (trace (snd (main ?bad (Parsed (demo_opts 3)))))"
    using B [THEN conjunct2, THEN conjunct2, rule_format, of 0] by (simp only: n3)
  have r2: "reaches_sampling ?good (Parsed (demo_opts 2)) (demo_opts 2) demo_data"
    by (rule demo_reaches) simp_all
  have ok: "fst (main ?good (Parsed (demo_opts 2))) = Return kEXIT_VAL_SUCCESS"
    by (rule demo_no_throw_ok) simp_all
  note G = tables_written_after_all_samples [OF r2, THEN conjunct2, THEN conjunct1, rule_format, OF ok]
  have g1: "length (filter is_table_write (trace (snd (main ?good (Parsed (demo_opts 2)))))) = 3"
    using G [THEN conjunct1] by (simp add: table_writes_length)
  have ok0: "fst (main ?good (Parsed (demo_opts 2))) = Return 0"
    using ok by (simp add: kEXIT_VAL_SUCCESS_def)
  from r3 bad b1 b2 [unfolded a0] r2 ok0 g1 show ?thesis by (intro conjI)
qed

subsection \<open>The table of poses\<close>

lemma pose_csv_row_eq:
  "pose_csv_row (FrameTransform (Mat3x3 (Pt3 a b c) (Pt3 d e f) (Pt3 g h i)) (Pt3 x y z)) =
     [a, b, c, x, d, e, f, y, g, h, i, z, 0, 0, 0, 1]"
  by (simp add: pose_csv_row_def matrix_def pt_nth_def mat_row_def upt_rec numeral_eq_Suc)

lemma demo_gt: "gt_cam_extrins_to_pelvis_vol demo_data =
    FrameTransform (Mat3x3 (Pt3 1 0 0) (Pt3 0 1 0) (Pt3 0 0 1)) (Pt3 (- 0.5) (- 0.5) (- 0.5))"
  by (simp add: demo_data_def tool_data_def gt_corr_def set_translation_def Identity_def mat_id_def)

lemma demo_composite_0: "cam_extrins_to_vol demo_data Identity =
    FrameTransform (Mat3x3 (Pt3 1 0 0) (Pt3 0 1 0) (Pt3 0 0 1)) (Pt3 (- 0.5) (- 0.5) (- 0.5))"
proof -
  have "cam_extrins_to_vol demo_data Identity = gt_cam_extrins_to_pelvis_vol demo_data"
    by (rule composite_of_Identity)
       (simp_all add: demo_data_def tool_data_def cam_setup_def invertible_Identity)
  then show ?thesis by (simp add: demo_gt)
qed

text \<open>
  C1, evaluated on a run with one sample whose stored ground-truth pose and extrinsic
  matrix are the identity: the only row of \<^verbatim>\<open>cam_extrins_to_vol_poses.csv\<close> is the
  flattened identity, the offset of sample 0, whereas the composite pose of that sample,
  which is handed to the renderer, is the corrected ground truth with translation
  (-0.5, -0.5, -0.5), whose flattening differs in columns 4, 8 and 12.
\<close>

theorem pose_table_row_is_offset:
  "sampled_poses_csv (snd (main (demo_env Missing (\<lambda>i s. False)) (Parsed (demo_opts 1))))
     = [[1, 0, 0, 0, 0, 1, 0, 0, 0, 0, 1, 0, 0, 0, 0, 1]]
   \<and> WriteCSVFile ''out/cam_extrins_to_vol_poses.csv''
        [[1, 0, 0, 0, 0, 1, 0, 0, 0, 0, 1, 0, 0, 0, 0, 1]]
        [''row1_col1'', ''row1_col2'', ''row1_col3'', ''row1_col4'',
         ''row2_col1'', ''row2_col2'', ''row2_col3'', ''row2_col4'',
         ''row3_col1'', ''row3_col2'', ''row3_col3'', ''row3_col4'',
         ''row4_col1'', ''row4_col2'', ''row4_col3'', ''row4_col4'']
       \<in> set (trace (snd (main (demo_env Missing (\<lambda>i s. False)) (Parsed (demo_opts 1)))))
   \<and> sampled_cam_to_pelvis_vol (snd (main (demo_env Missing (\<lambda>i s. False)) (Parsed (demo_opts 1))))
       = [FrameTransform (Mat3x3 (Pt3 1 0 0) (Pt3 0 1 0) (Pt3 0 0 1)) (Pt3 (- 0.5) (- 0.5) (- 0.5))]
   \<and> EdgesFromRayCast (FrameTransform (Mat3x3 (Pt3 1 0 0) (Pt3 0 1 0) (Pt3 0 0 1)) (Pt3 (- 0.5) (- 0.5) (- 0.5)))
       \<in> set (trace (snd (main (demo_env Missing (\<lambda>i s. False)) (Parsed (demo_opts 1)))))
   \<and> pose_csv_row (FrameTransform (Mat3x3 (Pt3 1 0 0) (Pt3 0 1 0) (Pt3 0 0 1)) (Pt3 (- 0.5) (- 0.5) (- 0.5)))
       = [1, 0, 0, - 0.5, 0, 1, 0, - 0.5, 0, 0, 1, - 0.5, 0, 0, 0, 1]"
proof -
  let ?env = "demo_env Missing (\<lambda>i s. False)"
  let ?st = "snd (main ?env (Parsed (demo_opts 1)))"
  let ?gt = "FrameTransform (Mat3x3 (Pt3 1 0 0) (Pt3 0 1 0) (Pt3 0 0 1)) (Pt3 (- 0.5) (- 0.5) (- 0.5))"
  have r: "reaches_sampling ?env (Parsed (demo_opts 1)) (demo_opts 1) demo_data"
    by (rule demo_reaches) simp_all
  have ok: "fst (main ?env (Parsed (demo_opts 1))) = Return kEXIT_VAL_SUCCESS"
    by (rule demo_no_throw_ok) simp_all
  have n: "unat (num_samples (demo_opts 1)) = 1" "dst_dir_path (demo_opts 1) = ''out''"
    by (simp_all add: demo_opts_def)
  have idrow: "pose_csv_row Identity = [1, 0, 0, 0, 0, 1, 0, 0, 0, 0, 1, 0, 0, 0, 0, 1]"
    by (simp add: Identity_def mat_id_def pt_zero_def pose_csv_row_eq)
  have rows: "sampled_poses_csv ?st = [[1, 0, 0, 0, 0, 1, 0, 0, 0, 0, 1, 0, 0, 0, 0, 1]]"
    by (simp add: run_success(4) [OF r ok] n offset_of_entry_0 idrow)
  have poses: "sampled_cam_to_pelvis_vol ?st = [?gt]"
    by (simp add: run_success(2) [OF r ok] n offset_of_entry_0 demo_composite_0)
  from run_tables_last [OF r ok] obtain before where
    tr: "trace ?st = before @ table_writes ''out'' ?st"
    and all: "\<forall>j < 1. set (map snd (sample_calls ''out'' j
                       (cam_extrins_to_vol demo_data (offset_of (loop_entry_state ?env (demo_opts 1)) j))))
                 \<subseteq> set before"
    unfolding n by blast
  have w: "WriteCSVFile ''out/cam_extrins_to_vol_poses.csv''
        [[1, 0, 0, 0, 0, 1, 0, 0, 0, 0, 1, 0, 0, 0, 0, 1]]
        [''row1_col1'', ''row1_col2'', ''row1_col3'', ''row1_col4'',
         ''row2_col1'', ''row2_col2'', ''row2_col3'', ''row2_col4'',
         ''row3_col1'', ''row3_col2'', ''row3_col3'', ''row3_col4'',
         ''row4_col1'', ''row4_col2'', ''row4_col3'', ''row4_col4'']
       \<in> set (table_writes ''out'' ?st)"
    by (simp add: table_writes_def rows Path_plus_def)
  have w': "set (table_writes ''out'' ?st) \<subseteq> set (trace ?st)"
    by (subst tr) simp
  have e: "EdgesFromRayCast ?gt \<in> set (map snd (sample_calls ''out'' 0 ?gt))"
    by (simp add: sample_calls_def Let_def)
  have e': "set (map snd (sample_calls ''out'' 0 ?gt)) \<subseteq> set (trace ?st)"
    using all [rule_format, of 0] by (subst tr) (simp add: offset_of_entry_0 demo_composite_0 le_supI1)
  have flat: "pose_csv_row ?gt = [1, 0, 0, - 0.5, 0, 1, 0, - 0.5, 0, 0, 1, - 0.5, 0, 0, 0, 1]"
    by (rule pose_csv_row_eq)
  from rows w w' poses e e' flat show ?thesis by blast
qed

end
